theory Spec2Isabelle
  imports Complex_Main "HOL-Library.Word"
begin

section \<open>JavaScript values\<close>

text \<open>
  The server is a Node.js/Express program. A JavaScript string is a sequence of UTF-16
  code units, so a string is a list of 16-bit words. \<open>js\<close> turns an ASCII literal of
  the source into such a string.
\<close>

type_synonym code_unit = "16 word"
type_synonym jsstring = "code_unit list"

definition js :: "string \<Rightarrow> jsstring" where
  "js s = map (\<lambda>c. of_nat (of_char c)) s"

text \<open>
  The values that \<open>JSON.parse\<close> produces (request bodies, backend responses). A number
  is an IEEE double: a finite one is a rational (\<open>JNum\<close>, with \<open>-0\<close> taken as \<open>0\<close>), and
  a literal too large for a double, such as \<open>1e999\<close>, parses to \<open>Infinity\<close> or
  \<open>-Infinity\<close>; \<open>NaN\<close> is never parsed. The program uses of a number only whether it
  is zero (truthiness) and its string form (for a finite one a parameter,
  \<open>Number_toString\<close> below). An object is an association list in property order; a
  parsed object has each key once, and a read takes the first binding of the key.
  \<open>undefined\<close> is \<open>None\<close> of \<open>json option\<close>.
\<close>

datatype json =
    JNull
  | JBool bool
  | JNum rat
  | JInfinity
  | JNegInfinity
  | JStr jsstring
  | JArr "json list"
  | JObj "(jsstring \<times> json) list"

text \<open>ToBoolean: \<open>null\<close>, \<open>false\<close>, \<open>0\<close> and \<open>""\<close> are falsy, as is \<open>undefined\<close>.\<close>

fun truthy :: "json \<Rightarrow> bool" where
  "truthy JNull = False"
| "truthy (JBool b) = b"
| "truthy (JNum x) = (x \<noteq> 0)"
| "truthy JInfinity = True"
| "truthy JNegInfinity = True"
| "truthy (JStr s) = (s \<noteq> [])"
| "truthy (JArr xs) = True"
| "truthy (JObj kvs) = True"

text \<open>
  What \<open>JSON.stringify\<close> keeps of a value: JSON has no notation for \<open>Infinity\<close> and
  \<open>-Infinity\<close>, which are written as \<open>null\<close>, at the top and inside arrays and
  objects. \<open>json_finite\<close> holds of the values that have no such number.
\<close>

fun jsonify :: "json \<Rightarrow> json" where
  "jsonify JInfinity = JNull"
| "jsonify JNegInfinity = JNull"
| "jsonify (JArr xs) = JArr (map jsonify xs)"
| "jsonify (JObj kvs) = JObj (map (\<lambda>kv. (fst kv, jsonify (snd kv))) kvs)"
| "jsonify v = v"

fun json_finite :: "json \<Rightarrow> bool" where
  "json_finite JInfinity = False"
| "json_finite JNegInfinity = False"
| "json_finite (JArr xs) = list_all json_finite xs"
| "json_finite (JObj kvs) = list_all (\<lambda>kv. json_finite (snd kv)) kvs"
| "json_finite v = True"

definition truthy_opt :: "json option \<Rightarrow> bool" where
  "truthy_opt v = (case v of None \<Rightarrow> False | Some j \<Rightarrow> truthy j)"

text \<open>
  Property read \<open>v.k\<close> on a value that is neither \<open>null\<close> nor \<open>undefined\<close>, for the
  property names the program reads (\<open>profile\<close>, \<open>checks\<close>, \<open>discord\<close>, \<open>sha\<close>,
  \<open>commit\<close>, \<open>content\<close>): none of them is defined on a built-in prototype, so the
  read is the object's own property, and \<open>undefined\<close> on arrays and primitives.
\<close>

fun get_prop :: "json \<Rightarrow> jsstring \<Rightarrow> json option" where
  "get_prop (JObj kvs) k = map_of kvs k"
| "get_prop v k = None"

text \<open>A thrown \<open>Error\<close>: its \<open>name\<close> and its \<open>message\<close>.\<close>

datatype js_error = JsError (err_name: jsstring) (err_message: jsstring)

definition Error :: "jsstring \<Rightarrow> js_error" where
  "Error m = JsError (js ''Error'') m"

definition TypeError :: "jsstring \<Rightarrow> js_error" where
  "TypeError m = JsError (js ''TypeError'') m"

definition URIError :: "jsstring \<Rightarrow> js_error" where
  "URIError m = JsError (js ''URIError'') m"

text \<open>
  The built-ins of the JavaScript runtime that the program calls and that are kept as
  parameters: the non-ASCII part of \<open>String.prototype.toLowerCase\<close> (the Unicode case
  table; the code unit is given with the code units before and after it, since the
  mapping is context sensitive), \<open>Number::toString\<close> on finite numbers,
  \<open>JSON.stringify(v, null, 2)\<close>, \<open>Buffer.from(s).toString('base64')\<close> and
  \<open>Buffer.from(v, 'base64').toString('utf8')\<close> (which throws when \<open>v\<close> is not
  something a Buffer can be made from). \<open>JSON.parse\<close> is not called by the program:
  it is how a client reads the text that \<open>load\<close> sends.
\<close>

record runtime =
  unicode_lower :: "jsstring \<Rightarrow> code_unit \<Rightarrow> jsstring \<Rightarrow> jsstring"
  Number_toString :: "rat \<Rightarrow> jsstring"
  JSON_stringify_indent2 :: "json \<Rightarrow> jsstring"
  utf8_to_base64 :: "jsstring \<Rightarrow> jsstring"
  base64_to_utf8 :: "json option \<Rightarrow> js_error + jsstring"
  JSON_parse :: "jsstring \<Rightarrow> js_error + json"

text \<open>
  \<open>String(v)\<close> and the conversion inside a template literal. An array is joined
  with commas, \<open>null\<close> elements giving the empty string. A plain object gives
  \<open>[object Object]\<close>, unless it has an own property \<open>toString\<close>: a parsed JSON value
  is never callable, so the conversion to a primitive finds no method that returns
  one and throws a TypeError (\<open>None\<close>).
\<close>

fun join :: "jsstring \<Rightarrow> jsstring list \<Rightarrow> jsstring" where
  "join sep [] = []"
| "join sep [s] = s"
| "join sep (s # t # ss) = s @ sep @ join sep (t # ss)"

fun js_String :: "runtime \<Rightarrow> json \<Rightarrow> jsstring option" where
  "js_String rt JNull = Some (js ''null'')"
| "js_String rt (JBool b) = Some (if b then js ''true'' else js ''false'')"
| "js_String rt (JNum x) = Some (Number_toString rt x)"
| "js_String rt JInfinity = Some (js ''Infinity'')"
| "js_String rt JNegInfinity = Some (js ''-Infinity'')"
| "js_String rt (JStr s) = Some s"
| "js_String rt (JArr xs) =
     map_option (join (js '',''))
       (those (map (\<lambda>x. case x of JNull \<Rightarrow> Some [] | _ \<Rightarrow> js_String rt x) xs))"
| "js_String rt (JObj kvs) =
     (if js ''toString'' \<in> fst ` set kvs then None else Some (js ''[object Object]''))"

definition to_string :: "runtime \<Rightarrow> json \<Rightarrow> js_error + jsstring" where
  "to_string rt v =
     (case js_String rt v of
        None \<Rightarrow> Inl (TypeError (js ''Cannot convert object to primitive value''))
      | Some s \<Rightarrow> Inr s)"

text \<open>Decimal digits of a number, as \<open>${resp.status}\<close> prints an HTTP status.\<close>

function decimal :: "nat \<Rightarrow> jsstring" where
  "decimal n = (if n < 10 then [0x30 + of_nat n] else decimal (n div 10) @ [0x30 + of_nat (n mod 10)])"
  by pat_completeness auto
termination
  by (relation "measure (\<lambda>n. n)") auto

declare decimal.simps [simp del]

section \<open>Configuration\<close>

text \<open>
  A string is well formed when it has no lone surrogate: every code unit of
  \<open>D800-DBFF\<close> is followed by one of \<open>DC00-DFFF\<close>, and no code unit of \<open>DC00-DFFF\<close>
  stands elsewhere. \<open>encodeURIComponent\<close> throws a URIError on any other string.
\<close>

definition is_high_surrogate :: "code_unit \<Rightarrow> bool" where
  "is_high_surrogate c \<longleftrightarrow> 0xD800 \<le> c \<and> c \<le> 0xDBFF"

definition is_low_surrogate :: "code_unit \<Rightarrow> bool" where
  "is_low_surrogate c \<longleftrightarrow> 0xDC00 \<le> c \<and> c \<le> 0xDFFF"

fun well_formed :: "jsstring \<Rightarrow> bool" where
  "well_formed [] = True"
| "well_formed [c] = (\<not> is_high_surrogate c \<and> \<not> is_low_surrogate c)"
| "well_formed (c # d # cs) =
     (if is_high_surrogate c then is_low_surrogate d \<and> well_formed cs
      else \<not> is_low_surrogate c \<and> well_formed (d # cs))"

text \<open>
  The value of an environment variable. Node decodes it from the bytes of the
  process environment as UTF-8, so it is a well-formed string. \<open>env s\<close> is the
  variable whose value is \<open>s\<close>, for a well-formed \<open>s\<close>.
\<close>

typedef env_string = "{s :: jsstring. well_formed s}"
  morphisms env_value Abs_env_string
  by (rule exI [of _ "[]"]) simp

definition env :: "jsstring \<Rightarrow> env_string" where
  "env s = Abs_env_string (if well_formed s then s else [])"

text \<open>
  The environment variables read at start-up (lines 20-28), with their defaults
  already applied. The process exits at once unless token, owner and repository are
  set (lines 30-33): \<open>config_ok\<close>.
\<close>

record config =
  env_API_KEY :: env_string
  env_GITHUB_TOKEN :: env_string
  env_GITHUB_OWNER :: env_string
  env_GITHUB_REPO :: env_string
  env_GITHUB_BRANCH :: env_string
  env_GITHUB_DIR :: env_string

definition API_KEY :: "config \<Rightarrow> jsstring" where
  "API_KEY cfg = env_value (env_API_KEY cfg)"

definition GITHUB_TOKEN :: "config \<Rightarrow> jsstring" where
  "GITHUB_TOKEN cfg = env_value (env_GITHUB_TOKEN cfg)"

definition GITHUB_OWNER :: "config \<Rightarrow> jsstring" where
  "GITHUB_OWNER cfg = env_value (env_GITHUB_OWNER cfg)"

definition GITHUB_REPO :: "config \<Rightarrow> jsstring" where
  "GITHUB_REPO cfg = env_value (env_GITHUB_REPO cfg)"

definition GITHUB_BRANCH :: "config \<Rightarrow> jsstring" where
  "GITHUB_BRANCH cfg = env_value (env_GITHUB_BRANCH cfg)"

definition GITHUB_DIR :: "config \<Rightarrow> jsstring" where
  "GITHUB_DIR cfg = env_value (env_GITHUB_DIR cfg)"

definition config_ok :: "config \<Rightarrow> bool" where
  "config_ok cfg \<longleftrightarrow> GITHUB_TOKEN cfg \<noteq> [] \<and> GITHUB_OWNER cfg \<noteq> [] \<and> GITHUB_REPO cfg \<noteq> []"

section \<open>Key normalisation: \<open>slugify\<close>\<close>

text \<open>The character class \<open>[a-z0-9]\<close> and the hyphen.\<close>

definition is_alnum :: "code_unit \<Rightarrow> bool" where
  "is_alnum c \<longleftrightarrow> (0x61 \<le> c \<and> c \<le> 0x7A) \<or> (0x30 \<le> c \<and> c \<le> 0x39)"

definition hyphen :: code_unit where
  "hyphen = 0x2D"

text \<open>\<open>String.prototype.trim\<close>: white space and line terminators of ECMAScript.\<close>

definition is_white_space :: "code_unit \<Rightarrow> bool" where
  "is_white_space c \<longleftrightarrow>
     c \<in> {0x09, 0x0A, 0x0B, 0x0C, 0x0D, 0x20, 0xA0, 0x1680, 0x2028, 0x2029,
          0x202F, 0x205F, 0x3000, 0xFEFF} \<or> (0x2000 \<le> c \<and> c \<le> 0x200A)"

definition trim :: "jsstring \<Rightarrow> jsstring" where
  "trim s = rev (dropWhile is_white_space (rev (dropWhile is_white_space s)))"

text \<open>
  \<open>String.prototype.toLowerCase\<close>: an ASCII code unit is mapped on its own (\<open>A-Z\<close>
  to \<open>a-z\<close>, anything else unchanged); a code unit from 0x80 on is mapped by the
  runtime's Unicode table.
\<close>

definition ascii_lower :: "code_unit \<Rightarrow> code_unit" where
  "ascii_lower c = (if 0x41 \<le> c \<and> c \<le> 0x5A then c + 0x20 else c)"

fun lower_from :: "runtime \<Rightarrow> jsstring \<Rightarrow> jsstring \<Rightarrow> jsstring" where
  "lower_from rt seen [] = []"
| "lower_from rt seen (c # cs) =
     (if c < 0x80 then [ascii_lower c] else unicode_lower rt seen c cs)
       @ lower_from rt (seen @ [c]) cs"

definition toLowerCase :: "runtime \<Rightarrow> jsstring \<Rightarrow> jsstring" where
  "toLowerCase rt s = lower_from rt [] s"

text \<open>
  \<open>.replace(/[^a-z0-9]+/g, '-')\<close>: every maximal run of code units outside
  \<open>[a-z0-9]\<close> becomes one hyphen.
\<close>

function replace_runs :: "jsstring \<Rightarrow> jsstring" where
  "replace_runs [] = []"
| "replace_runs (c # cs) =
     (if is_alnum c then c # replace_runs cs
      else hyphen # replace_runs (dropWhile (\<lambda>d. \<not> is_alnum d) cs))"
  by pat_completeness auto
termination
  by (relation "measure length") (auto simp: less_Suc_eq_le length_dropWhile_le)

text \<open>
  \<open>.replace(/(^-|-$)+/g, '')\<close>: scanning from the left, a hyphen is deleted when it
  stands at the start of the string (\<open>^-\<close>) or at its end (\<open>-$\<close>); the flag says
  whether the scan is still at the start.
\<close>

fun strip_edge_hyphens :: "bool \<Rightarrow> jsstring \<Rightarrow> jsstring" where
  "strip_edge_hyphens at_start [] = []"
| "strip_edge_hyphens at_start (c # cs) =
     (if c = hyphen \<and> (at_start \<or> cs = []) then strip_edge_hyphens False cs
      else c # strip_edge_hyphens False cs)"

text \<open>Lines 51-56. \<open>input || ''\<close> replaces a falsy or missing input by the empty string.\<close>

definition or_empty :: "json option \<Rightarrow> json" where
  "or_empty input = (case input of None \<Rightarrow> JStr [] | Some v \<Rightarrow> if truthy v then v else JStr [])"

definition slugify_string :: "runtime \<Rightarrow> jsstring \<Rightarrow> jsstring" where
  "slugify_string rt str =
     (let s = strip_edge_hyphens True (replace_runs (toLowerCase rt (trim str)))
      in if s = [] then js ''player'' else s)"

definition slugify :: "runtime \<Rightarrow> json option \<Rightarrow> js_error + jsstring" where
  "slugify rt input =
     (case to_string rt (or_empty input) of
        Inl e \<Rightarrow> Inl e
      | Inr str \<Rightarrow> Inr (slugify_string rt str))"

text \<open>
  The pattern \<open>^[a-z0-9]+(-[a-z0-9]+)*$\<close> as its automaton: \<open>slug_head\<close> expects the
  first code unit of a group, \<open>slug_tail\<close> has read at least one.
\<close>

fun slug_head :: "jsstring \<Rightarrow> bool" and slug_tail :: "jsstring \<Rightarrow> bool" where
  "slug_head [] = False"
| "slug_head (c # cs) = (is_alnum c \<and> slug_tail cs)"
| "slug_tail [] = True"
| "slug_tail (c # cs) = (if is_alnum c then slug_tail cs else c = hyphen \<and> slug_head cs)"

definition matches_slug_pattern :: "jsstring \<Rightarrow> bool" where
  "matches_slug_pattern s = slug_head s"

text \<open>
  The shape of a string after the first replacement: only \<open>[a-z0-9]\<close> and hyphens,
  and every hyphen is followed by a code unit of \<open>[a-z0-9]\<close> or ends the string.
\<close>

fun collapsed :: "jsstring \<Rightarrow> bool" where
  "collapsed [] = True"
| "collapsed (c # cs) =
     (if is_alnum c then collapsed cs
      else c = hyphen \<and> (case cs of [] \<Rightarrow> True | d # ds \<Rightarrow> is_alnum d) \<and> collapsed cs)"

section \<open>The content store behind \<open>fetch\<close>\<close>

text \<open>
  A request to the GitHub contents API. Its URL is
  \<open>https://api.github.com/repos/OWNER/REPO/contents/\<close> followed by
  \<open>encodeURIComponent(path)\<close>, and it carries the token as bearer credential:
  \<open>gh_target\<close> keeps these parts, the path as it is before the encoding. A read
  (\<open>GET\<close>) adds \<open>?ref=\<close> and \<open>encodeURIComponent(branch)\<close> to the URL; a write
  (\<open>PUT\<close>) has as body the serialisation by \<open>JSON.stringify\<close> of an object, which is
  kept as the value.
\<close>

record gh_target =
  gh_owner :: jsstring
  gh_repo :: jsstring
  gh_path :: jsstring
  gh_bearer :: jsstring

datatype gh_request =
    GET_contents gh_target jsstring
  | PUT_contents gh_target json

text \<open>
  What \<open>fetch\<close> resolves to: the status, the body as \<open>resp.text()\<close> gives it and
  the result of \<open>resp.json()\<close>, which throws on a body that is not JSON.
\<close>

record gh_response =
  resp_status :: nat
  resp_text :: jsstring
  resp_json :: "js_error + json"

definition resp_ok :: "gh_response \<Rightarrow> bool" where
  "resp_ok r \<longleftrightarrow> 200 \<le> resp_status r \<and> resp_status r \<le> 299"

text \<open>
  The store is outside the program: \<open>fetch\<close> is a parameter that takes a request and
  the store's state, and gives the response (or the error of a failed connection)
  and the new state.
\<close>

type_synonym 'b transport = "gh_request \<Rightarrow> 'b \<Rightarrow> (js_error + gh_response) \<times> 'b"

text \<open>
  The state threaded through a handler: the store, and a log of what the handler has
  done to it so far, every call of \<open>slugify\<close> and every request sent, in order.
\<close>

datatype event = Normalized "json option" | Fetched gh_request

record 'b world =
  backend :: 'b
  trace :: "event list"

definition log_event :: "event \<Rightarrow> 'b world \<Rightarrow> 'b world" where
  "log_event ev w = w\<lparr>trace := trace w @ [ev]\<rparr>"

definition do_fetch ::
  "'b transport \<Rightarrow> gh_request \<Rightarrow> 'b world \<Rightarrow> (js_error + gh_response) \<times> 'b world" where
  "do_fetch fetch r w =
     (case fetch r (backend w) of
        (res, b') \<Rightarrow> (res, \<lparr>backend = b', trace = trace w @ [Fetched r]\<rparr>))"

text \<open>
  Lines 58-64. Building the URL comes first: \<open>encodeURIComponent\<close> throws a
  URIError when the path or the branch has a lone surrogate, and then nothing is
  sent. Of the answer, a 404 is \<open>null\<close>, any other failure status throws.
\<close>

definition target :: "config \<Rightarrow> jsstring \<Rightarrow> gh_target" where
  "target cfg path =
     \<lparr>gh_owner = GITHUB_OWNER cfg, gh_repo = GITHUB_REPO cfg, gh_path = path,
      gh_bearer = GITHUB_TOKEN cfg\<rparr>"

definition get_request :: "config \<Rightarrow> jsstring \<Rightarrow> gh_request" where
  "get_request cfg path = GET_contents (target cfg path) (GITHUB_BRANCH cfg)"

definition githubGetContent ::
  "config \<Rightarrow> 'b transport \<Rightarrow> jsstring \<Rightarrow> 'b world \<Rightarrow> (js_error + json) \<times> 'b world" where
  "githubGetContent cfg fetch path w =
     (if \<not> well_formed path \<or> \<not> well_formed (GITHUB_BRANCH cfg)
      then (Inl (URIError (js ''URI malformed'')), w)
      else
        (case do_fetch fetch (get_request cfg path) w of
           (Inl e, w') \<Rightarrow> (Inl e, w')
         | (Inr resp, w') \<Rightarrow>
             if resp_status resp = 404 then (Inr JNull, w')
             else if \<not> resp_ok resp
             then (Inl (Error (js ''GitHub GET failed: '' @ decimal (resp_status resp)
                                 @ js '' '' @ resp_text resp)), w')
             else (resp_json resp, w')))"

text \<open>
  Lines 66-90. The \<open>sha\<close> of the existing file, when there is one, goes into the
  body of the PUT. Line 72 encodes the path a second time, which cannot throw: the
  read has encoded the same path before.
\<close>

definition existing_sha :: "json \<Rightarrow> json" where
  "existing_sha existing =
     (if truthy existing \<and> truthy_opt (get_prop existing (js ''sha''))
      then (case get_prop existing (js ''sha'') of Some v \<Rightarrow> v | None \<Rightarrow> JNull)
      else JNull)"

definition put_body :: "runtime \<Rightarrow> config \<Rightarrow> jsstring \<Rightarrow> json \<Rightarrow> jsstring \<Rightarrow> json \<Rightarrow> json" where
  "put_body rt cfg path contentJson message sha =
     JObj ([(js ''message'', JStr (if message \<noteq> [] then message else js ''Update '' @ path)),
            (js ''content'', JStr (utf8_to_base64 rt (JSON_stringify_indent2 rt contentJson))),
            (js ''branch'', JStr (GITHUB_BRANCH cfg))]
           @ (if truthy sha then [(js ''sha'', sha)] else []))"

definition put_request :: "config \<Rightarrow> jsstring \<Rightarrow> json \<Rightarrow> gh_request" where
  "put_request cfg path body = PUT_contents (target cfg path) body"

definition githubUpsertFile ::
  "runtime \<Rightarrow> config \<Rightarrow> 'b transport \<Rightarrow> jsstring \<Rightarrow> json \<Rightarrow> jsstring \<Rightarrow> 'b world
     \<Rightarrow> (js_error + json) \<times> 'b world" where
  "githubUpsertFile rt cfg fetch path contentJson message w =
     (case githubGetContent cfg fetch path w of
        (Inl e, w1) \<Rightarrow> (Inl e, w1)
      | (Inr existing, w1) \<Rightarrow>
          (case do_fetch fetch
                  (put_request cfg path
                     (put_body rt cfg path contentJson message (existing_sha existing))) w1 of
             (Inl e, w2) \<Rightarrow> (Inl e, w2)
           | (Inr resp, w2) \<Rightarrow>
               if \<not> resp_ok resp
               then (Inl (Error (js ''GitHub PUT failed: '' @ decimal (resp_status resp)
                                   @ js '' '' @ resp_text resp)), w2)
               else (resp_json resp, w2)))"

section \<open>The HTTP surface\<close>

text \<open>
  A request as it arrives. The URL is one that the router matches against
  \<open>/health\<close>, \<open>/save\<close> or \<open>/load/:slug\<close> (with the decoded parameter), or any other.
  The body is given by what \<open>express.json({ limit: '2mb' })\<close> makes of it: nothing
  to parse (no body, or a content type other than JSON), a body that parses to a
  value, or a body that the parser rejects: not JSON, larger than the limit, or in a
  charset or encoding it does not support.
\<close>

datatype http_method = GET | HEAD | POST | PUT | PATCH | DELETE | OPTIONS

datatype url = Health_url | Save_url | Load_url jsstring | Other_url

datatype body_error = Malformed_json | Entity_too_large | Unsupported_encoding

datatype sent_body = No_json | Json_value json | Bad_json body_error

record incoming =
  in_method :: http_method
  in_url :: url
  in_x_api_key :: "jsstring option"
  in_body :: sent_body

text \<open>
  A request as the program's own middleware and handlers see it, after \<open>cors()\<close> and
  \<open>express.json()\<close> have passed it on: the route that the router finds for it, with
  its path parameter, the \<open>x-api-key\<close> header and \<open>req.body\<close>, which is \<open>undefined\<close> or
  the empty object when there was nothing to parse (the handler treats both alike).
\<close>

datatype route = GET_health | POST_save | GET_load jsstring | No_route

record http_request =
  req_route :: route
  req_x_api_key :: "jsstring option"
  req_body :: "json option"

text \<open>
  A response: \<open>res.json(v)\<close> sends the serialised value, \<open>res.send(text)\<close> after
  \<open>res.setHeader('Content-Type', 'application/json')\<close> sends the text as it is.
  \<open>No_content\<close> is a response without a body, \<open>Error_page\<close> the page that Express
  itself sends for an error or for a request that no route matches.
\<close>

datatype payload = JsonBody json | RawJson jsstring | No_content | Error_page

record http_response =
  res_status :: nat
  res_body :: payload

definition respond :: "nat \<Rightarrow> payload \<Rightarrow> http_response" where
  "respond st b = \<lparr>res_status = st, res_body = b\<rparr>"

definition error_body :: "jsstring \<Rightarrow> payload" where
  "error_body msg = JsonBody (JObj [(js ''error'', JStr msg)])"

text \<open>The \<open>catch\<close> of both handlers: \<open>String(err.message || err)\<close> with status 500.\<close>

definition error_text :: "js_error \<Rightarrow> jsstring" where
  "error_text e = (if err_message e \<noteq> [] then err_message e else err_name e)"

definition catch_500 :: "(js_error + http_response) \<times> 'w \<Rightarrow> http_response \<times> 'w" where
  "catch_500 r =
     (case r of
        (Inl e, w) \<Rightarrow> (respond 500 (error_body (error_text e)), w)
      | (Inr res, w) \<Rightarrow> (res, w))"

text \<open>Lines 40-45. \<open>None\<close> is \<open>next()\<close>.\<close>

definition api_key_middleware :: "config \<Rightarrow> http_request \<Rightarrow> http_response option" where
  "api_key_middleware cfg req =
     (if API_KEY cfg = [] then None
      else if req_x_api_key req \<noteq> Some (API_KEY cfg)
      then Some (respond 401 (error_body (js ''Unauthorized'')))
      else None)"

text \<open>Line 93.\<close>

definition health :: http_response where
  "health = respond 200 (JsonBody (JObj [(js ''ok'', JBool True)]))"

text \<open>
  Lines 95-108. \<open>const { profile, checks } = req.body || {}\<close> reads both properties
  of the body, or of an empty object when the body is missing or falsy.
\<close>

definition body_or_empty :: "json option \<Rightarrow> json" where
  "body_or_empty b = (case b of None \<Rightarrow> JObj [] | Some v \<Rightarrow> if truthy v then v else JObj [])"

text \<open>
  \<open>result.commit?.sha || null\<close>: reading \<open>commit\<close> of \<open>null\<close> throws; a missing
  or \<open>null\<close> commit, and a missing or falsy \<open>sha\<close>, give \<open>null\<close>.
\<close>

definition commit_sha :: "json \<Rightarrow> js_error + json" where
  "commit_sha result =
     (if result = JNull
      then Inl (TypeError (js ''Cannot read properties of null (reading 'commit')''))
      else Inr (case get_prop result (js ''commit'') of
                  None \<Rightarrow> JNull
                | Some c \<Rightarrow>
                    (case get_prop c (js ''sha'') of
                       None \<Rightarrow> JNull
                     | Some v \<Rightarrow> if truthy v then v else JNull)))"

text \<open>
  The commit identifier that the store's answer to a write reports, \<open>commit.sha\<close>,
  if it reports one.
\<close>

definition reported_commit_id :: "json \<Rightarrow> json option" where
  "reported_commit_id result =
     (case get_prop result (js ''commit'') of None \<Rightarrow> None | Some c \<Rightarrow> get_prop c (js ''sha''))"

text \<open>\<open>profile.discord || slug\<close>, the value printed into the commit message.\<close>

definition discord_or_slug :: "json option \<Rightarrow> jsstring \<Rightarrow> json" where
  "discord_or_slug discord slug =
     (case discord of None \<Rightarrow> JStr slug | Some d \<Rightarrow> if truthy d then d else JStr slug)"

definition storage_path :: "config \<Rightarrow> jsstring \<Rightarrow> jsstring" where
  "storage_path cfg slug = GITHUB_DIR cfg @ js ''/'' @ slug @ js ''.json''"

definition envelope :: "json \<Rightarrow> json \<Rightarrow> jsstring \<Rightarrow> json" where
  "envelope profile checks now =
     JObj [(js ''profile'', profile), (js ''checks'', checks),
           (js ''savedAt'', JStr now), (js ''version'', JNum 1)]"

definition save_try ::
  "runtime \<Rightarrow> config \<Rightarrow> 'b transport \<Rightarrow> jsstring \<Rightarrow> http_request \<Rightarrow> 'b world
     \<Rightarrow> (js_error + http_response) \<times> 'b world" where
  "save_try rt cfg fetch now req w =
     (let b = body_or_empty (req_body req);
          profile = get_prop b (js ''profile'');
          checks = get_prop b (js ''checks'')
      in case (profile, checks) of
           (Some p, Some c) \<Rightarrow>
             if \<not> truthy p \<or> \<not> truthy c
             then (Inr (respond 400 (error_body (js ''Missing profile or checks''))), w)
             else
               let discord = get_prop p (js ''discord'');
                   w1 = log_event (Normalized discord) w
               in (case slugify rt discord of
                     Inl e \<Rightarrow> (Inl e, w1)
                   | Inr slug \<Rightarrow>
                       let path = storage_path cfg slug;
                           payload = envelope p c now
                       in (case to_string rt (discord_or_slug discord slug) of
                             Inl e \<Rightarrow> (Inl e, w1)
                           | Inr who \<Rightarrow>
                               (case githubUpsertFile rt cfg fetch path payload
                                       (js ''Onboarding save for '' @ who) w1 of
                                  (Inl e, w2) \<Rightarrow> (Inl e, w2)
                                | (Inr result, w2) \<Rightarrow>
                                    (case commit_sha result of
                                       Inl e \<Rightarrow> (Inl e, w2)
                                     | Inr commit \<Rightarrow>
                                         (Inr (respond 200
                                            (JsonBody (JObj [(js ''ok'', JBool True),
                                                             (js ''path'', JStr path),
                                                             (js ''commit'', commit)]))), w2)))))
         | _ \<Rightarrow> (Inr (respond 400 (error_body (js ''Missing profile or checks''))), w))"

definition save ::
  "runtime \<Rightarrow> config \<Rightarrow> 'b transport \<Rightarrow> jsstring \<Rightarrow> http_request \<Rightarrow> 'b world
     \<Rightarrow> http_response \<times> 'b world" where
  "save rt cfg fetch now req w = catch_500 (save_try rt cfg fetch now req w)"

text \<open>Lines 110-123. \<open>req.params.slug\<close> is a string.\<close>

definition load_try ::
  "runtime \<Rightarrow> config \<Rightarrow> 'b transport \<Rightarrow> jsstring \<Rightarrow> 'b world
     \<Rightarrow> (js_error + http_response) \<times> 'b world" where
  "load_try rt cfg fetch slug_param w =
     (let w1 = log_event (Normalized (Some (JStr slug_param))) w
      in case slugify rt (Some (JStr slug_param)) of
           Inl e \<Rightarrow> (Inl e, w1)
         | Inr slug \<Rightarrow>
             (case githubGetContent cfg fetch (storage_path cfg slug) w1 of
                (Inl e, w2) \<Rightarrow> (Inl e, w2)
              | (Inr data, w2) \<Rightarrow>
                  if \<not> truthy data then (Inr (respond 404 (error_body (js ''Not found''))), w2)
                  else (case base64_to_utf8 rt (get_prop data (js ''content'')) of
                          Inl e \<Rightarrow> (Inl e, w2)
                        | Inr content \<Rightarrow> (Inr (respond 200 (RawJson content)), w2))))"

definition load ::
  "runtime \<Rightarrow> config \<Rightarrow> 'b transport \<Rightarrow> jsstring \<Rightarrow> 'b world \<Rightarrow> http_response \<times> 'b world" where
  "load rt cfg fetch slug_param w = catch_500 (load_try rt cfg fetch slug_param w)"

text \<open>
  Lines 40-123 on a request that has reached them: the shared-secret middleware
  runs before every route, and Express answers 404 when no route matches. \<open>now\<close> is
  what \<open>new Date().toISOString()\<close> gives while the request is served.
\<close>

definition guarded_routes ::
  "runtime \<Rightarrow> config \<Rightarrow> 'b transport \<Rightarrow> jsstring \<Rightarrow> http_request \<Rightarrow> 'b world
     \<Rightarrow> http_response \<times> 'b world" where
  "guarded_routes rt cfg fetch now req w =
     (case api_key_middleware cfg req of
        Some res \<Rightarrow> (res, w)
      | None \<Rightarrow>
          (case req_route req of
             GET_health \<Rightarrow> (health, w)
           | POST_save \<Rightarrow> save rt cfg fetch now req w
           | GET_load slug_param \<Rightarrow> load rt cfg fetch slug_param w
           | No_route \<Rightarrow> (respond 404 Error_page, w)))"

text \<open>
  Line 36, \<open>app.use(cors())\<close>: with its defaults the middleware answers every
  \<open>OPTIONS\<close> request itself, with status 204 and no body, and passes every other
  request on.
\<close>

definition cors :: "http_method \<Rightarrow> http_response option" where
  "cors m = (if m = OPTIONS then Some (respond 204 No_content) else None)"

text \<open>
  Line 37, \<open>app.use(express.json({ limit: '2mb' }))\<close>: a body that the parser rejects
  ends the request with an error, which Express answers with the error's status
  (400, 413 or 415) without running any later middleware or route; otherwise
  \<open>req.body\<close> is set and the request goes on.
\<close>

definition body_error_status :: "body_error \<Rightarrow> nat" where
  "body_error_status e =
     (case e of Malformed_json \<Rightarrow> 400 | Entity_too_large \<Rightarrow> 413 | Unsupported_encoding \<Rightarrow> 415)"

definition express_json :: "sent_body \<Rightarrow> http_response + json option" where
  "express_json b =
     (case b of
        No_json \<Rightarrow> Inr None
      | Json_value v \<Rightarrow> Inr (Some v)
      | Bad_json e \<Rightarrow> Inl (respond (body_error_status e) Error_page))"

text \<open>
  The router: \<open>app.get\<close> serves \<open>GET\<close> and \<open>HEAD\<close>, \<open>app.post\<close> serves \<open>POST\<close>. The
  body of the answer to a \<open>HEAD\<close> request is not sent.
\<close>

definition route_of :: "http_method \<Rightarrow> url \<Rightarrow> route" where
  "route_of m u =
     (case u of
        Health_url \<Rightarrow> if m = GET \<or> m = HEAD then GET_health else No_route
      | Save_url \<Rightarrow> if m = POST then POST_save else No_route
      | Load_url slug_param \<Rightarrow> if m = GET \<or> m = HEAD then GET_load slug_param else No_route
      | Other_url \<Rightarrow> No_route)"

definition sent :: "http_method \<Rightarrow> http_response \<Rightarrow> http_response" where
  "sent m res = (if m = HEAD then res\<lparr>res_body := No_content\<rparr> else res)"

text \<open>The application, lines 35-123: the middleware and the routes in the order they are registered.\<close>

definition app ::
  "runtime \<Rightarrow> config \<Rightarrow> 'b transport \<Rightarrow> jsstring \<Rightarrow> incoming \<Rightarrow> 'b world
     \<Rightarrow> http_response \<times> 'b world" where
  "app rt cfg fetch now inc w =
     (case cors (in_method inc) of
        Some res \<Rightarrow> (res, w)
      | None \<Rightarrow>
          (case express_json (in_body inc) of
             Inl res \<Rightarrow> (sent (in_method inc) res, w)
           | Inr body \<Rightarrow>
               (case guarded_routes rt cfg fetch now
                       \<lparr>req_route = route_of (in_method inc) (in_url inc),
                        req_x_api_key = in_x_api_key inc, req_body = body\<rparr> w of
                  (res, w') \<Rightarrow> (sent (in_method inc) res, w'))))"

section \<open>A key-value content store and a runtime for concrete runs\<close>

text \<open>
  The content store that the round-trip property assumes: a map from branch and path
  to the base64 content last written there. A read of a missing path answers 404, a
  read of a stored one answers 200 with the content and its version token. A write
  creates the file when none is stored and no token is sent, overwrites it when the
  token sent is the stored file's, and is refused otherwise. The version token of a
  file is a function of its content, as a git blob id is.
\<close>

type_synonym kv_store = "jsstring \<times> jsstring \<Rightarrow> jsstring option"

definition blob_sha :: "jsstring \<Rightarrow> jsstring" where
  "blob_sha content = js ''sha-'' @ content"

definition kv_answer :: "nat \<Rightarrow> json \<Rightarrow> gh_response" where
  "kv_answer st j = \<lparr>resp_status = st, resp_text = [], resp_json = Inr j\<rparr>"

definition kv_refusal :: "nat \<Rightarrow> jsstring \<Rightarrow> gh_response" where
  "kv_refusal st msg =
     \<lparr>resp_status = st, resp_text = msg, resp_json = Inr (JObj [(js ''message'', JStr msg)])\<rparr>"

definition kv_file :: "jsstring \<Rightarrow> jsstring \<Rightarrow> json" where
  "kv_file path content =
     JObj [(js ''type'', JStr (js ''file'')), (js ''path'', JStr path),
           (js ''sha'', JStr (blob_sha content)), (js ''encoding'', JStr (js ''base64'')),
           (js ''content'', JStr content)]"

definition kv_written :: "jsstring \<Rightarrow> jsstring \<Rightarrow> json" where
  "kv_written path content =
     JObj [(js ''content'', JObj [(js ''path'', JStr path), (js ''sha'', JStr (blob_sha content))]),
           (js ''commit'', JObj [(js ''sha'', JStr (js ''commit-'' @ blob_sha content))])]"

fun kv_fetch :: "kv_store transport" where
  "kv_fetch (GET_contents tgt branch) st =
     (case st (branch, gh_path tgt) of
        None \<Rightarrow> (Inr (kv_refusal 404 (js ''Not Found'')), st)
      | Some content \<Rightarrow> (Inr (kv_answer 200 (kv_file (gh_path tgt) content)), st))"
| "kv_fetch (PUT_contents tgt body) st =
     (case (get_prop body (js ''branch''), get_prop body (js ''content'')) of
        (Some (JStr branch), Some (JStr content)) \<Rightarrow>
          (case st (branch, gh_path tgt) of
             None \<Rightarrow>
               if get_prop body (js ''sha'') = None
               then (Inr (kv_answer 201 (kv_written (gh_path tgt) content)),
                     st((branch, gh_path tgt) \<mapsto> content))
               else (Inr (kv_refusal 422 (js ''sha given for a new file'')), st)
           | Some old \<Rightarrow>
               if get_prop body (js ''sha'') = Some (JStr (blob_sha old))
               then (Inr (kv_answer 200 (kv_written (gh_path tgt) content)),
                     st((branch, gh_path tgt) \<mapsto> content))
               else (Inr (kv_refusal 409 (js ''sha does not match'')), st))
      | _ \<Rightarrow> (Inr (kv_refusal 422 (js ''Invalid request'')), st))"

text \<open>
  A runtime for concrete runs: it leaves non-ASCII code units alone when lowering,
  prints the integer part of a number, serialises without indentation or escapes,
  uses the identity as base64 codec on strings, and parses the texts that it
  serialises: literals, unsigned integers, strings without escapes, arrays and
  objects, without white space.
\<close>

definition test_number :: "rat \<Rightarrow> jsstring" where
  "test_number x = (if x < 0 then js ''-'' else []) @ decimal (nat \<lfloor>\<bar>x\<bar>\<rfloor>)"

fun test_stringify :: "json \<Rightarrow> jsstring" where
  "test_stringify JNull = js ''null''"
| "test_stringify (JBool b) = (if b then js ''true'' else js ''false'')"
| "test_stringify (JNum x) = test_number x"
| "test_stringify JInfinity = js ''null''"
| "test_stringify JNegInfinity = js ''null''"
| "test_stringify (JStr s) = [0x22] @ s @ [0x22]"
| "test_stringify (JArr xs) = js ''['' @ join (js '','') (map test_stringify xs) @ js '']''"
| "test_stringify (JObj kvs) =
     js ''{'' @ join (js '','')
       (map (\<lambda>kv. [0x22] @ fst kv @ [0x22] @ js '':'' @ test_stringify (snd kv)) kvs) @ js ''}''"

definition is_digit :: "code_unit \<Rightarrow> bool" where
  "is_digit c \<longleftrightarrow> 0x30 \<le> c \<and> c \<le> 0x39"

fun digits_value :: "nat \<Rightarrow> jsstring \<Rightarrow> nat" where
  "digits_value acc [] = acc"
| "digits_value acc (c # cs) = digits_value (10 * acc + (unat c - 48)) cs"

fun quoted :: "jsstring \<Rightarrow> (jsstring \<times> jsstring) option" where
  "quoted [] = None"
| "quoted (c # cs) =
     (if c = 0x22 then Some ([], cs)
      else (case quoted cs of None \<Rightarrow> None | Some (s, rest) \<Rightarrow> Some (c # s, rest)))"

fun test_parse_value :: "nat \<Rightarrow> jsstring \<Rightarrow> (json \<times> jsstring) option"
  and test_parse_elements :: "nat \<Rightarrow> jsstring \<Rightarrow> (json list \<times> jsstring) option"
  and test_parse_members :: "nat \<Rightarrow> jsstring \<Rightarrow> ((jsstring \<times> json) list \<times> jsstring) option"
where
  "test_parse_value 0 s = None"
| "test_parse_value (Suc n) s =
     (if take 4 s = js ''null'' then Some (JNull, drop 4 s)
      else if take 4 s = js ''true'' then Some (JBool True, drop 4 s)
      else if take 5 s = js ''false'' then Some (JBool False, drop 5 s)
      else if take 2 s = js ''[]'' then Some (JArr [], drop 2 s)
      else if take 2 s = js ''{}'' then Some (JObj [], drop 2 s)
      else if take 1 s = js ''['' then
        (case test_parse_elements n (drop 1 s) of
           None \<Rightarrow> None | Some (xs, rest) \<Rightarrow> Some (JArr xs, rest))
      else if take 1 s = js ''{'' then
        (case test_parse_members n (drop 1 s) of
           None \<Rightarrow> None | Some (kvs, rest) \<Rightarrow> Some (JObj kvs, rest))
      else if take 1 s = [0x22] then
        (case quoted (drop 1 s) of
           None \<Rightarrow> None | Some (str, rest) \<Rightarrow> Some (JStr str, rest))
      else if takeWhile is_digit s \<noteq> [] then
        Some (JNum (of_nat (digits_value 0 (takeWhile is_digit s))), dropWhile is_digit s)
      else None)"
| "test_parse_elements 0 s = None"
| "test_parse_elements (Suc n) s =
     (case test_parse_value n s of
        None \<Rightarrow> None
      | Some (x, rest) \<Rightarrow>
          if take 1 rest = js '']'' then Some ([x], drop 1 rest)
          else if take 1 rest = js '','' then
            (case test_parse_elements n (drop 1 rest) of
               None \<Rightarrow> None | Some (xs, rest') \<Rightarrow> Some (x # xs, rest'))
          else None)"
| "test_parse_members 0 s = None"
| "test_parse_members (Suc n) s =
     (if take 1 s = [0x22] then
        (case quoted (drop 1 s) of
           None \<Rightarrow> None
         | Some (k, rest) \<Rightarrow>
             if take 1 rest = js '':'' then
               (case test_parse_value n (drop 1 rest) of
                  None \<Rightarrow> None
                | Some (v, rest') \<Rightarrow>
                    if take 1 rest' = js ''}'' then Some ([(k, v)], drop 1 rest')
                    else if take 1 rest' = js '','' then
                      (case test_parse_members n (drop 1 rest') of
                         None \<Rightarrow> None | Some (kvs, rest'') \<Rightarrow> Some ((k, v) # kvs, rest''))
                    else None)
             else None)
      else None)"

definition test_parse :: "jsstring \<Rightarrow> js_error + json" where
  "test_parse s =
     (case test_parse_value (length s) s of
        Some (v, []) \<Rightarrow> Inr v
      | _ \<Rightarrow> Inl (JsError (js ''SyntaxError'') (js ''Unexpected token'')))"

definition test_runtime :: runtime where
  "test_runtime =
     \<lparr>unicode_lower = (\<lambda>seen c rest. [c]),
      Number_toString = test_number,
      JSON_stringify_indent2 = test_stringify,
      utf8_to_base64 = (\<lambda>s. s),
      base64_to_utf8 = (\<lambda>v. case v of
                                Some (JStr s) \<Rightarrow> Inr s
                              | _ \<Rightarrow> Inl (TypeError (js ''The first argument must be of type string''))),
      JSON_parse = test_parse\<rparr>"

text \<open>
  A store that holds nothing and answers every write with status 200 and a given
  JSON body; a store that answers every read with status 200 and a directory
  listing, an array, which has no \<open>sha\<close> of its own, and refuses every write; and a
  store that is never reached.
\<close>

fun fixed_reply_store :: "json \<Rightarrow> unit transport" where
  "fixed_reply_store reply (GET_contents tgt branch) u =
     (Inr \<lparr>resp_status = 404, resp_text = js ''Not Found'',
           resp_json = Inr (JObj [(js ''message'', JStr (js ''Not Found''))])\<rparr>, u)"
| "fixed_reply_store reply (PUT_contents tgt body) u =
     (Inr \<lparr>resp_status = 200, resp_text = [], resp_json = Inr reply\<rparr>, u)"

fun listing_store :: "unit transport" where
  "listing_store (GET_contents tgt branch) u =
     (Inr \<lparr>resp_status = 200, resp_text = [],
           resp_json = Inr (JArr [JObj [(js ''type'', JStr (js ''file'')),
                                        (js ''name'', JStr (js ''readme.md'')),
                                        (js ''sha'', JStr (js ''3b18e512''))]])\<rparr>, u)"
| "listing_store (PUT_contents tgt body) u =
     (Inr \<lparr>resp_status = 422, resp_text = js ''sha was not supplied'',
           resp_json = Inr (JObj [(js ''message'', JStr (js ''sha was not supplied''))])\<rparr>, u)"

definition unreachable_store :: "unit transport" where
  "unreachable_store r u = (Inl (Error (js ''fetch failed'')), u)"

text \<open>Fixtures: configurations without and with a shared secret, and the request of the example.\<close>

definition open_config :: config where
  "open_config =
     \<lparr>env_API_KEY = env [], env_GITHUB_TOKEN = env (js ''ghp_token''),
      env_GITHUB_OWNER = env (js ''owner''), env_GITHUB_REPO = env (js ''repo''),
      env_GITHUB_BRANCH = env (js ''main''), env_GITHUB_DIR = env (js ''saves'')\<rparr>"

definition keyed_config :: config where
  "keyed_config = open_config\<lparr>env_API_KEY := env (js ''some-shared-secret'')\<rparr>"

definition ann_profile :: json where
  "ann_profile = JObj [(js ''discord'', JStr (js ''Ann Bee''))]"

definition ann_checks :: json where
  "ann_checks = JObj [(js ''done'', JBool True)]"

definition ann_body :: json where
  "ann_body = JObj [(js ''profile'', ann_profile), (js ''checks'', ann_checks)]"

definition empty_store :: kv_store where
  "empty_store = Map.empty"

definition start :: "'b \<Rightarrow> 'b world" where
  "start b = \<lparr>backend = b, trace = []\<rparr>"

section \<open>Properties of key normalisation\<close>

lemma hyphen_not_alnum: "\<not> is_alnum hyphen"
  by (simp add: is_alnum_def hyphen_def)

lemma alnum_not_white_space: "is_alnum c \<Longrightarrow> \<not> is_white_space c"
  unfolding is_alnum_def is_white_space_def
  by (auto simp: word_le_nat_alt)

lemma hyphen_not_white_space: "\<not> is_white_space hyphen"
  by (simp add: is_white_space_def hyphen_def)

lemma alnum_ascii_lower: "is_alnum c \<Longrightarrow> c < 0x80 \<and> ascii_lower c = c"
  unfolding is_alnum_def ascii_lower_def
  by (auto simp: word_le_nat_alt word_less_nat_alt)

lemma hyphen_ascii_lower: "hyphen < 0x80 \<and> ascii_lower hyphen = hyphen"
  by (simp add: hyphen_def ascii_lower_def)

lemma replace_runs_alnum_head:
  "is_alnum d \<Longrightarrow> replace_runs (d # ds) = d # replace_runs ds"
  by simp

lemma dropWhile_nonalnum_cases:
  "dropWhile (\<lambda>d. \<not> is_alnum d) cs = [] \<or>
   (\<exists>d ds. dropWhile (\<lambda>d. \<not> is_alnum d) cs = d # ds \<and> is_alnum d)"
  by (induction cs) auto

lemma collapsed_replace_runs: "collapsed (replace_runs s)"
proof (induction s rule: replace_runs.induct)
  case 1
  show ?case by simp
next
  case (2 c cs)
  show ?case
  proof (cases "is_alnum c")
    case True
    with 2 show ?thesis by simp
  next
    case False
    define rest where "rest = dropWhile (\<lambda>d. \<not> is_alnum d) cs"
    from False have unfold: "replace_runs (c # cs) = hyphen # replace_runs rest"
      by (simp add: rest_def)
    from 2(2) [OF False] have IH: "collapsed (replace_runs rest)"
      by (simp add: rest_def)
    from dropWhile_nonalnum_cases [of cs]
    have "rest = [] \<or> (\<exists>d ds. rest = d # ds \<and> is_alnum d)"
      by (simp only: rest_def)
    then show ?thesis
    proof
      assume "rest = []"
      with unfold hyphen_not_alnum show ?thesis by simp
    next
      assume "\<exists>d ds. rest = d # ds \<and> is_alnum d"
      then obtain d ds where d: "rest = d # ds" "is_alnum d"
        by blast
      with IH unfold hyphen_not_alnum show ?thesis by simp
    qed
  qed
qed

lemma strip_collapsed:
  "collapsed v \<Longrightarrow>
     slug_tail (strip_edge_hyphens False v) \<and>
     (\<forall>d ds. v = d # ds \<and> is_alnum d \<longrightarrow> slug_head (strip_edge_hyphens False v))"
proof (induction v)
  case Nil
  show ?case by simp
next
  case (Cons c cs)
  show ?case
  proof (cases "is_alnum c")
    case True
    with Cons hyphen_not_alnum show ?thesis by auto
  next
    case False
    with Cons.prems have c: "c = hyphen" and cs: "collapsed cs"
      and nxt: "case cs of [] \<Rightarrow> True | d # ds \<Rightarrow> is_alnum d" by auto
    show ?thesis
    proof (cases cs)
      case Nil
      with c False show ?thesis by simp
    next
      case (Cons d ds)
      with nxt have "is_alnum d" by simp
      with Cons.IH [OF cs] Cons have "slug_head (strip_edge_hyphens False cs)" by blast
      with c False Cons hyphen_not_alnum show ?thesis by simp
    qed
  qed
qed

lemma strip_start_collapsed:
  "collapsed v \<Longrightarrow> strip_edge_hyphens True v = [] \<or> slug_head (strip_edge_hyphens True v)"
proof (cases v)
  case Nil
  then show ?thesis by simp
next
  case (Cons c cs)
  assume v: "collapsed v"
  show ?thesis
  proof (cases "is_alnum c")
    case True
    with v Cons strip_collapsed [of cs] hyphen_not_alnum show ?thesis by auto
  next
    case False
    with v Cons have c: "c = hyphen" and cs: "collapsed cs"
      and nxt: "case cs of [] \<Rightarrow> True | d # ds \<Rightarrow> is_alnum d" by auto
    show ?thesis
    proof (cases cs)
      case Nil
      with c Cons show ?thesis by simp
    next
      case (Cons d ds)
      with nxt have "is_alnum d" by simp
      with strip_collapsed [OF cs] Cons have "slug_head (strip_edge_hyphens False cs)" by blast
      with c \<open>v = c # cs\<close> show ?thesis by simp
    qed
  qed
qed

lemma player_slug: "slug_head (js ''player'')"
  by (simp add: js_def is_alnum_def)

lemma slugify_string_pattern: "slug_head (slugify_string rt s)"
  using strip_start_collapsed [OF collapsed_replace_runs, of "toLowerCase rt (trim s)"] player_slug
  by (auto simp: slugify_string_def Let_def)

text \<open>A string that matches the pattern is a fixed point of every step.\<close>

lemma slug_shape:
  "(slug_head s \<longrightarrow> s \<noteq> [] \<and> is_alnum (hd s) \<and> is_alnum (last s) \<and> (\<forall>c \<in> set s. is_alnum c \<or> c = hyphen)) \<and>
   (slug_tail s \<longrightarrow> (s \<noteq> [] \<longrightarrow> is_alnum (last s)) \<and> (\<forall>c \<in> set s. is_alnum c \<or> c = hyphen))"
  by (induction s) (auto split: if_splits)

lemma trim_slug: "slug_head s \<Longrightarrow> trim s = s"
proof -
  assume h: "slug_head s"
  with slug_shape [of s] have ne: "s \<noteq> []" and a: "is_alnum (hd s)" and b: "is_alnum (last s)" by auto
  from ne a have 1: "dropWhile is_white_space s = s"
    by (cases s) (auto dest: alnum_not_white_space)
  from ne b have 2: "dropWhile is_white_space (rev s) = rev s"
    by (cases "rev s") (auto dest: alnum_not_white_space simp: last_rev hd_rev[symmetric])
  show ?thesis by (simp add: trim_def 1 2)
qed

lemma lower_from_ascii:
  "\<forall>c \<in> set s. is_alnum c \<or> c = hyphen \<Longrightarrow> lower_from rt seen s = s"
  by (induction s arbitrary: seen) (auto simp: alnum_ascii_lower hyphen_ascii_lower)

lemma replace_runs_slug:
  "(slug_head s \<longrightarrow> replace_runs s = s) \<and> (slug_tail s \<longrightarrow> replace_runs s = s)"
proof (induction s)
  case Nil
  show ?case by simp
next
  case (Cons c cs)
  show ?case
  proof (cases "is_alnum c")
    case True with Cons show ?thesis by simp
  next
    case False
    have "replace_runs (c # cs) = c # cs" if t: "slug_tail (c # cs)"
    proof -
      from t False have c: "c = hyphen" and h: "slug_head cs" by auto
      then obtain d ds where cs: "cs = d # ds" and d: "is_alnum d" by (cases cs) auto
      from Cons h have "replace_runs cs = cs" by simp
      with False c cs d show ?thesis by simp
    qed
    with False show ?thesis by simp
  qed
qed

lemma strip_slug:
  "(slug_head s \<longrightarrow> strip_edge_hyphens b s = s) \<and> (slug_tail s \<longrightarrow> strip_edge_hyphens False s = s)"
proof (induction s arbitrary: b)
  case Nil
  show ?case by simp
next
  case (Cons c cs)
  show ?case
  proof (cases "is_alnum c")
    case True with Cons hyphen_not_alnum show ?thesis by auto
  next
    case False
    have "strip_edge_hyphens False (c # cs) = c # cs" if t: "slug_tail (c # cs)"
    proof -
      from t False have c: "c = hyphen" and h: "slug_head cs" by auto
      then have "cs \<noteq> []" by auto
      with Cons h c show ?thesis by simp
    qed
    with False show ?thesis by simp
  qed
qed

lemma slugify_string_fixed: "slug_head s \<Longrightarrow> slugify_string rt s = s"
proof -
  assume h: "slug_head s"
  then have ne: "s \<noteq> []" by auto
  from h slug_shape [of s] have "lower_from rt [] s = s" by (intro lower_from_ascii) blast
  with h ne show ?thesis
    using replace_runs_slug [of s] strip_slug [of s True]
    by (simp add: slugify_string_def trim_slug toLowerCase_def)
qed

lemma slugify_JStr: "slugify rt (Some (JStr s)) = Inr (slugify_string rt s)"
  by (simp add: slugify_def or_empty_def to_string_def)

lemma slugify_result:
  assumes "slugify rt input = Inr out"
  shows "slug_head out"
proof -
  from assms obtain str where "out = slugify_string rt str"
    by (auto simp: slugify_def split: sum.splits)
  then show ?thesis by (simp add: slugify_string_pattern)
qed

text \<open>
  Claim C7. For every input string, \<open>slugify\<close> returns, and what it returns matches
  \<open>^[a-z0-9]+(-[a-z0-9]+)*$\<close> or is the fallback token \<open>player\<close>; the same holds of
  whatever \<open>slugify\<close> returns on any other input.
\<close>

theorem slugify_output_pattern:
  "(\<exists>out. slugify rt (Some (JStr s)) = Inr out \<and>
          (matches_slug_pattern out \<or> out = js ''player''))
   \<and> (\<forall>input out. slugify rt input = Inr out \<longrightarrow>
          matches_slug_pattern out \<or> out = js ''player'')"
proof
  have "matches_slug_pattern (slugify_string rt s)"
    unfolding matches_slug_pattern_def by (rule slugify_string_pattern)
  then show "\<exists>out. slugify rt (Some (JStr s)) = Inr out \<and>
          (matches_slug_pattern out \<or> out = js ''player'')"
    by (simp add: slugify_JStr)
next
  show "\<forall>input out. slugify rt input = Inr out \<longrightarrow>
          matches_slug_pattern out \<or> out = js ''player''"
    by (auto simp: matches_slug_pattern_def dest: slugify_result)
qed

theorem slugify_output_pattern_witness:
  "slugify test_runtime (Some (JStr (js ''  Ann   Bee!! ''))) = Inr (js ''ann-bee'')
   \<and> matches_slug_pattern (js ''ann-bee'')"
proof -
  have run: "slugify test_runtime (Some (JStr (js ''  Ann   Bee!! ''))) = Inr (js ''ann-bee'')"
    by (simp add: slugify_JStr slugify_string_def toLowerCase_def trim_def js_def
        is_white_space_def is_alnum_def ascii_lower_def hyphen_def test_runtime_def)
  from slugify_output_pattern [of test_runtime "js ''  Ann   Bee!! ''"] run
  have "matches_slug_pattern (js ''ann-bee'') \<or> js ''ann-bee'' = js ''player''" by blast
  moreover have "js ''ann-bee'' \<noteq> js ''player''" by (simp add: js_def)
  ultimately show ?thesis using run by simp
qed

text \<open>
  Claim C8. Key normalisation is idempotent: for every input string, \<open>slugify\<close>
  applied to its own output returns that output; the same holds of whatever
  \<open>slugify\<close> returns on any other input.
\<close>

theorem slugify_idempotent:
  "(\<exists>out. slugify rt (Some (JStr s)) = Inr out \<and> slugify rt (Some (JStr out)) = Inr out)
   \<and> (\<forall>input out. slugify rt input = Inr out \<longrightarrow> slugify rt (Some (JStr out)) = Inr out)"
proof
  have "slugify_string rt (slugify_string rt s) = slugify_string rt s"
    by (rule slugify_string_fixed) (rule slugify_string_pattern)
  then show "\<exists>out. slugify rt (Some (JStr s)) = Inr out \<and> slugify rt (Some (JStr out)) = Inr out"
    by (simp add: slugify_JStr)
next
  show "\<forall>input out. slugify rt input = Inr out \<longrightarrow> slugify rt (Some (JStr out)) = Inr out"
    by (auto simp: slugify_JStr dest!: slugify_result intro: slugify_string_fixed)
qed

theorem slugify_idempotent_witness:
  "slugify test_runtime (Some (JStr (js ''  Ann   Bee!! ''))) = Inr (js ''ann-bee'')
   \<and> slugify test_runtime (Some (JStr (js ''ann-bee''))) = Inr (js ''ann-bee'')"
proof -
  have run: "slugify test_runtime (Some (JStr (js ''  Ann   Bee!! ''))) = Inr (js ''ann-bee'')"
    by (simp add: slugify_JStr slugify_string_def toLowerCase_def trim_def js_def
        is_white_space_def is_alnum_def ascii_lower_def hyphen_def test_runtime_def)
  with slugify_idempotent [of test_runtime "js ''  Ann   Bee!! ''"] show ?thesis by auto
qed

section \<open>Well-formed strings\<close>

lemma env_value_env: "env_value (env s) = (if well_formed s then s else [])"
  by (simp add: env_def Abs_env_string_inverse)

lemma well_formed_env_value: "well_formed (env_value e)"
  using env_value [of e] by simp

lemma no_surrogates_well_formed:
  "\<forall>c \<in> set s. \<not> is_high_surrogate c \<and> \<not> is_low_surrogate c \<Longrightarrow> well_formed s"
  by (induction s rule: well_formed.induct) auto

lemma well_formed_append: "well_formed a \<Longrightarrow> well_formed b \<Longrightarrow> well_formed (a @ b)"
proof (induction a rule: well_formed.induct)
  case 1
  then show ?case by simp
next
  case (2 c)
  then show ?case by (cases b) auto
next
  case (3 c d cs)
  then show ?case by (auto split: if_splits)
qed

lemma js_well_formed: "well_formed (js s)"
proof (rule no_surrogates_well_formed, rule ballI)
  fix c assume "c \<in> set (js s)"
  then obtain ch where c: "c = of_nat (of_char ch)" by (auto simp: js_def)
  have small: "(of_char ch :: nat) < 256" by (rule nat_of_char_less_256)
  then have "(of_char ch :: nat) mod 65536 = of_char ch" by (intro mod_less) arith
  with c have "unat c = of_char ch" by (simp add: unat_of_nat)
  with small have "unat c < 256" by (simp only:)
  then show "\<not> is_high_surrogate c \<and> \<not> is_low_surrogate c"
    by (auto simp: is_high_surrogate_def is_low_surrogate_def word_le_nat_alt)
qed

lemma slug_well_formed:
  assumes "slug_head s"
  shows "well_formed s"
proof (rule no_surrogates_well_formed, rule ballI)
  fix c assume "c \<in> set s"
  with assms slug_shape [of s] have "is_alnum c \<or> c = hyphen" by blast
  then show "\<not> is_high_surrogate c \<and> \<not> is_low_surrogate c"
    by (auto simp: is_alnum_def hyphen_def is_high_surrogate_def is_low_surrogate_def
        word_le_nat_alt)
qed

lemma branch_well_formed: "well_formed (GITHUB_BRANCH cfg)"
  by (simp add: GITHUB_BRANCH_def well_formed_env_value)

lemma storage_path_well_formed:
  "well_formed slug \<Longrightarrow> well_formed (storage_path cfg slug)"
  by (simp add: storage_path_def GITHUB_DIR_def well_formed_env_value js_well_formed
      well_formed_append)

lemma get_content_well_formed:
  "well_formed path \<Longrightarrow>
   githubGetContent cfg fetch path w =
     (case do_fetch fetch (get_request cfg path) w of
        (Inl e, w') \<Rightarrow> (Inl e, w')
      | (Inr resp, w') \<Rightarrow>
          if resp_status resp = 404 then (Inr JNull, w')
          else if \<not> resp_ok resp
          then (Inl (Error (js ''GitHub GET failed: '' @ decimal (resp_status resp)
                              @ js '' '' @ resp_text resp)), w')
          else (resp_json resp, w'))"
  by (simp add: githubGetContent_def branch_well_formed)

section \<open>Properties of the handlers\<close>

text \<open>Fixtures and small facts used by the concrete runs.\<close>

lemma js_empty_iff [simp]: "js s = [] \<longleftrightarrow> s = []"
  by (simp add: js_def)

lemma open_config_values:
  "API_KEY open_config = []"
  "GITHUB_TOKEN open_config = js ''ghp_token''"
  "GITHUB_OWNER open_config = js ''owner''"
  "GITHUB_REPO open_config = js ''repo''"
  "GITHUB_BRANCH open_config = js ''main''"
  "GITHUB_DIR open_config = js ''saves''"
  by (simp_all add: open_config_def API_KEY_def GITHUB_TOKEN_def GITHUB_OWNER_def
      GITHUB_REPO_def GITHUB_BRANCH_def GITHUB_DIR_def env_value_env js_well_formed)

lemma keyed_config_values:
  "API_KEY keyed_config = js ''some-shared-secret''"
  "GITHUB_TOKEN keyed_config = js ''ghp_token''"
  "GITHUB_OWNER keyed_config = js ''owner''"
  "GITHUB_REPO keyed_config = js ''repo''"
  by (simp_all add: keyed_config_def open_config_def API_KEY_def GITHUB_TOKEN_def
      GITHUB_OWNER_def GITHUB_REPO_def env_value_env js_well_formed)

lemma slugify_ann: "slugify test_runtime (Some (JStr (js ''Ann Bee''))) = Inr (js ''ann-bee'')"
  by (simp add: slugify_JStr slugify_string_def toLowerCase_def trim_def js_def
        is_white_space_def is_alnum_def ascii_lower_def hyphen_def test_runtime_def)

lemma ann_fields:
  "get_prop ann_body (js ''profile'') = Some ann_profile"
  "get_prop ann_body (js ''checks'') = Some ann_checks"
  "get_prop ann_profile (js ''discord'') = Some (JStr (js ''Ann Bee''))"
  "truthy ann_profile" "truthy ann_checks"
  by (simp_all add: ann_body_def ann_profile_def ann_checks_def js_def)

lemma ann_path: "storage_path open_config (js ''ann-bee'') = js ''saves/ann-bee.json''"
  by (simp add: storage_path_def open_config_values) (simp add: js_def)

lemma kv_file_props:
  "get_prop (kv_file path content) (js ''sha'') = Some (JStr (blob_sha content))"
  "get_prop (kv_file path content) (js ''content'') = Some (JStr content)"
  "truthy (kv_file path content)"
  by (simp_all add: kv_file_def js_def)

lemma blob_sha_nonempty: "blob_sha content \<noteq> []"
  by (simp add: blob_sha_def js_def)

lemma upsert_fixed_reply:
  "well_formed path \<Longrightarrow>
   githubUpsertFile rt cfg (fixed_reply_store reply) path content message w =
     (Inr reply,
      \<lparr>backend = backend w,
       trace = trace w @ [Fetched (get_request cfg path),
                          Fetched (put_request cfg path (put_body rt cfg path content message JNull))]\<rparr>)"
  by (simp add: githubUpsertFile_def get_content_well_formed do_fetch_def get_request_def
      put_request_def existing_sha_def resp_ok_def)

subsection \<open>The presence check of \<open>save\<close>\<close>

lemma save_try_rejects:
  "\<not> (truthy_opt (get_prop (body_or_empty (req_body req)) (js ''profile'')) \<and>
      truthy_opt (get_prop (body_or_empty (req_body req)) (js ''checks''))) \<Longrightarrow>
   save_try rt cfg fetch now req w =
     (Inr (respond 400 (error_body (js ''Missing profile or checks''))), w)"
  by (auto simp: save_try_def Let_def truthy_opt_def split: option.splits)

lemma save_rejects:
  "\<not> (truthy_opt (get_prop (body_or_empty (req_body req)) (js ''profile'')) \<and>
      truthy_opt (get_prop (body_or_empty (req_body req)) (js ''checks''))) \<Longrightarrow>
   save rt cfg fetch now req w = (respond 400 (error_body (js ''Missing profile or checks'')), w)"
  by (simp add: save_def save_try_rejects catch_500_def)

lemma get_prop_falsy: "\<not> truthy b \<Longrightarrow> get_prop b k = None"
  by (cases b) auto

lemma get_prop_body_or_empty:
  "get_prop (body_or_empty (Some b)) k = get_prop b k"
  by (simp add: body_or_empty_def get_prop_falsy)

lemma get_prop_no_body: "get_prop (body_or_empty None) k = None"
  by (simp add: body_or_empty_def)

text \<open>
  Claim C3. A save request whose body lacks \<open>profile\<close> or lacks \<open>checks\<close> (no body
  at all, a body that is not an object, or an object without the property) is
  answered with status 400, and the handler leaves the world as it found it: nothing
  is added to the log, so no request was sent to the store.
\<close>

theorem save_missing_field:
  assumes "req_body req = None \<or>
           (\<exists>b. req_body req = Some b \<and>
                (get_prop b (js ''profile'') = None \<or> get_prop b (js ''checks'') = None))"
  shows "save rt cfg fetch now req w =
           (respond 400 (error_body (js ''Missing profile or checks'')), w)"
proof (rule save_rejects)
  from assms
  show "\<not> (truthy_opt (get_prop (body_or_empty (req_body req)) (js ''profile'')) \<and>
            truthy_opt (get_prop (body_or_empty (req_body req)) (js ''checks'')))"
    by (auto simp: get_prop_body_or_empty get_prop_no_body truthy_opt_def)
qed

theorem save_missing_field_witness:
  "get_prop (JObj [(js ''checks'', ann_checks)]) (js ''profile'') = None
   \<and> save test_runtime open_config kv_fetch (js ''2024-01-01T00:00:00.000Z'')
       \<lparr>req_route = POST_save, req_x_api_key = None,
        req_body = Some (JObj [(js ''checks'', ann_checks)])\<rparr> (start empty_store)
     = (respond 400 (error_body (js ''Missing profile or checks'')), start empty_store)"
proof -
  have missing: "get_prop (JObj [(js ''checks'', ann_checks)]) (js ''profile'') = None"
    by (simp add: js_def)
  with save_missing_field [where req = "\<lparr>req_route = POST_save, req_x_api_key = None,
        req_body = Some (JObj [(js ''checks'', ann_checks)])\<rparr>"
      and rt = test_runtime and cfg = open_config and fetch = kv_fetch
      and now = "js ''2024-01-01T00:00:00.000Z''" and w = "start empty_store"]
  show ?thesis by simp
qed

text \<open>
  Claim C10. A save request in which \<open>profile\<close> or \<open>checks\<close> is present with a falsy
  value (\<open>false\<close>, \<open>0\<close>, the empty string, \<open>null\<close>) is answered with status 400
  and no request to the store: the same result as for any request in which the
  property is absent.
\<close>

theorem save_falsy_field:
  assumes "req_body req = Some b"
    and "get_prop b (js ''profile'') = Some v \<and> \<not> truthy v \<or>
         get_prop b (js ''checks'') = Some v \<and> \<not> truthy v"
  shows "save rt cfg fetch now req w =
           (respond 400 (error_body (js ''Missing profile or checks'')), w)
         \<and> (\<forall>req'. req_body req' = None \<or>
                (\<exists>b'. req_body req' = Some b' \<and>
                   (get_prop b' (js ''profile'') = None \<or> get_prop b' (js ''checks'') = None))
              \<longrightarrow> save rt cfg fetch now req w = save rt cfg fetch now req' w)"
proof -
  from assms
  have "\<not> (truthy_opt (get_prop (body_or_empty (req_body req)) (js ''profile'')) \<and>
            truthy_opt (get_prop (body_or_empty (req_body req)) (js ''checks'')))"
    by (auto simp: get_prop_body_or_empty truthy_opt_def)
  then have falsy: "save rt cfg fetch now req w =
           (respond 400 (error_body (js ''Missing profile or checks'')), w)"
    by (rule save_rejects)
  have "save rt cfg fetch now req' w =
           (respond 400 (error_body (js ''Missing profile or checks'')), w)"
    if "req_body req' = None \<or>
          (\<exists>b'. req_body req' = Some b' \<and>
             (get_prop b' (js ''profile'') = None \<or> get_prop b' (js ''checks'') = None))"
    for req'
  proof (rule save_rejects)
    from that
    show "\<not> (truthy_opt (get_prop (body_or_empty (req_body req')) (js ''profile'')) \<and>
              truthy_opt (get_prop (body_or_empty (req_body req')) (js ''checks'')))"
      by (auto simp: get_prop_body_or_empty get_prop_no_body truthy_opt_def)
  qed
  with falsy show ?thesis by simp
qed

theorem save_falsy_field_witness:
  "get_prop (JObj [(js ''profile'', JNum 0), (js ''checks'', ann_checks)]) (js ''profile'') = Some (JNum 0)
   \<and> \<not> truthy (JNum 0)
   \<and> save test_runtime open_config kv_fetch (js ''2024-01-01T00:00:00.000Z'')
       \<lparr>req_route = POST_save, req_x_api_key = None,
        req_body = Some (JObj [(js ''profile'', JNum 0), (js ''checks'', ann_checks)])\<rparr>
       (start empty_store)
     = (respond 400 (error_body (js ''Missing profile or checks'')), start empty_store)
   \<and> save test_runtime open_config kv_fetch (js ''2024-01-01T00:00:00.000Z'')
       \<lparr>req_route = POST_save, req_x_api_key = None,
        req_body = Some (JObj [(js ''profile'', JNum 0), (js ''checks'', ann_checks)])\<rparr>
       (start empty_store)
     = save test_runtime open_config kv_fetch (js ''2024-01-01T00:00:00.000Z'')
       \<lparr>req_route = POST_save, req_x_api_key = None,
        req_body = Some (JObj [(js ''checks'', ann_checks)])\<rparr>
       (start empty_store)"
proof -
  let ?falsy = "\<lparr>req_route = POST_save, req_x_api_key = None,
        req_body = Some (JObj [(js ''profile'', JNum 0), (js ''checks'', ann_checks)])\<rparr>"
  let ?absent = "\<lparr>req_route = POST_save, req_x_api_key = None,
        req_body = Some (JObj [(js ''checks'', ann_checks)])\<rparr>"
  have body: "req_body ?falsy = Some (JObj [(js ''profile'', JNum 0), (js ''checks'', ann_checks)])"
    by simp
  have falsy: "get_prop (JObj [(js ''profile'', JNum 0), (js ''checks'', ann_checks)]) (js ''profile'')
                 = Some (JNum 0) \<and> \<not> truthy (JNum 0)"
    by simp
  have absent: "req_body ?absent = None \<or>
      (\<exists>b'. req_body ?absent = Some b' \<and>
         (get_prop b' (js ''profile'') = None \<or> get_prop b' (js ''checks'') = None))"
    by (simp add: js_def)
  note run = save_falsy_field [OF body disjI1 [OF falsy], where rt = test_runtime
      and cfg = open_config and fetch = kv_fetch and now = "js ''2024-01-01T00:00:00.000Z''"
      and w = "start empty_store"]
  from run have rejected: "save test_runtime open_config kv_fetch (js ''2024-01-01T00:00:00.000Z'')
      ?falsy (start empty_store)
        = (respond 400 (error_body (js ''Missing profile or checks'')), start empty_store)"
    by (rule conjunct1)
  from run [THEN conjunct2, THEN spec, THEN mp, OF absent]
  have same: "save test_runtime open_config kv_fetch (js ''2024-01-01T00:00:00.000Z'')
      ?falsy (start empty_store)
        = save test_runtime open_config kv_fetch (js ''2024-01-01T00:00:00.000Z'')
      ?absent (start empty_store)" .
  from falsy rejected same show ?thesis by blast
qed

subsection \<open>\<open>load\<close> of a key that is not stored\<close>

text \<open>
  Claim C5. When the store answers the read of the path derived from the slug with
  status 404, \<open>load\<close> answers with status 404 and \<open>{error: 'Not found'}\<close>, having
  normalised the slug and sent that one read.
\<close>

theorem load_not_found:
  assumes "fetch (get_request cfg (storage_path cfg (slugify_string rt slug_param))) (backend w)
             = (Inr resp, b')"
    and "resp_status resp = 404"
  shows "load rt cfg fetch slug_param w =
           (respond 404 (error_body (js ''Not found'')),
            \<lparr>backend = b',
             trace = trace w @ [Normalized (Some (JStr slug_param)),
                                Fetched (get_request cfg (storage_path cfg (slugify_string rt slug_param)))]\<rparr>)"
  using assms
  by (simp add: load_def load_try_def slugify_JStr get_content_well_formed
      storage_path_well_formed slug_well_formed slugify_string_pattern do_fetch_def
      log_event_def catch_500_def Let_def)

theorem load_not_found_witness:
  "fst (load test_runtime open_config kv_fetch (js ''Nobody Here'') (start empty_store))
     = respond 404 (error_body (js ''Not found''))"
proof -
  have "kv_fetch (get_request open_config
            (storage_path open_config (slugify_string test_runtime (js ''Nobody Here''))))
          (backend (start empty_store))
        = (Inr (kv_refusal 404 (js ''Not Found'')), empty_store)"
    by (simp add: get_request_def start_def empty_store_def)
  from this load_not_found [where fetch = kv_fetch and cfg = open_config and rt = test_runtime
      and slug_param = "js ''Nobody Here''" and w = "start empty_store"
      and resp = "kv_refusal 404 (js ''Not Found'')" and b' = empty_store]
  show ?thesis
    by (simp add: kv_refusal_def)
qed

subsection \<open>The shared secret\<close>

lemma save_status: "res_status (fst (save rt cfg fetch now req w)) \<in> {200, 400, 500}"
  by (auto simp: save_def save_try_def catch_500_def respond_def Let_def
      split: option.splits sum.splits prod.splits)

lemma load_status: "res_status (fst (load rt cfg fetch slug_param w)) \<in> {200, 404, 500}"
  by (auto simp: load_def load_try_def catch_500_def respond_def Let_def
      split: option.splits sum.splits prod.splits)

lemma guarded_open_status:
  assumes "API_KEY cfg = []"
  shows "res_status (fst (guarded_routes rt cfg fetch now req w)) \<noteq> 401"
proof (cases "req_route req")
  case GET_health
  with assms show ?thesis
    by (simp add: guarded_routes_def api_key_middleware_def health_def respond_def)
next
  case POST_save
  with assms save_status [of rt cfg fetch now req w] show ?thesis
    by (auto simp: guarded_routes_def api_key_middleware_def)
next
  case (GET_load slug_param)
  with assms load_status [of rt cfg fetch slug_param w] show ?thesis
    by (auto simp: guarded_routes_def api_key_middleware_def)
next
  case No_route
  with assms show ?thesis
    by (simp add: guarded_routes_def api_key_middleware_def respond_def)
qed

lemma sent_status [simp]: "res_status (sent m res) = res_status res"
  by (simp add: sent_def)

lemma app_open_status:
  assumes "API_KEY cfg = []"
  shows "res_status (fst (app rt cfg fetch now inc w)) \<noteq> 401"
proof (cases "in_method inc = OPTIONS")
  case True
  then show ?thesis by (simp add: app_def cors_def respond_def)
next
  case False
  show ?thesis
  proof (cases "in_body inc")
    case (Bad_json e)
    with False show ?thesis
      by (cases e) (simp_all add: app_def cors_def express_json_def body_error_status_def respond_def)
  next
    case No_json
    with False guarded_open_status [OF assms, of rt fetch now
        "\<lparr>req_route = route_of (in_method inc) (in_url inc),
          req_x_api_key = in_x_api_key inc, req_body = None\<rparr>" w]
    show ?thesis
      by (simp add: app_def cors_def express_json_def split_def)
  next
    case (Json_value v)
    with False guarded_open_status [OF assms, of rt fetch now
        "\<lparr>req_route = route_of (in_method inc) (in_url inc),
          req_x_api_key = in_x_api_key inc, req_body = Some v\<rparr>" w]
    show ?thesis
      by (simp add: app_def cors_def express_json_def split_def)
  qed
qed

lemma app_unauthorized_world:
  assumes "API_KEY cfg \<noteq> []" and "in_x_api_key inc \<noteq> Some (API_KEY cfg)"
  shows "snd (app rt cfg fetch now inc w) = w"
  using assms
  by (auto simp: app_def cors_def express_json_def guarded_routes_def api_key_middleware_def
      split: sent_body.splits)

text \<open>
  Claim C4 as stated fails: \<open>cors()\<close> and \<open>express.json()\<close> are registered before the
  shared-secret middleware. With a secret configured and no key sent, a request
  whose body is not JSON is answered with 400 by the parser, and an \<open>OPTIONS\<close>
  request is answered with 204 by \<open>cors()\<close>; neither is answered with 401.
\<close>

theorem api_key_after_parser_counterexample:
  "API_KEY keyed_config = js ''some-shared-secret''
   \<and> app test_runtime keyed_config unreachable_store (js ''2024-01-01T00:00:00.000Z'')
       \<lparr>in_method = POST, in_url = Save_url, in_x_api_key = None,
        in_body = Bad_json Malformed_json\<rparr> (start ())
     = (respond 400 Error_page, start ())
   \<and> app test_runtime keyed_config unreachable_store (js ''2024-01-01T00:00:00.000Z'')
       \<lparr>in_method = OPTIONS, in_url = Save_url, in_x_api_key = None, in_body = No_json\<rparr>
       (start ())
     = (respond 204 No_content, start ())"
  by (simp add: keyed_config_values app_def cors_def express_json_def body_error_status_def
      sent_def)

text \<open>
  Claim C4, amended. With a non-empty \<open>API_KEY\<close>, every request on every route that
  reaches the shared-secret middleware (any request but an \<open>OPTIONS\<close> request, which
  \<open>cors()\<close> answers, and a request whose body \<open>express.json()\<close> rejects) and whose
  \<open>x-api-key\<close> is absent or different is answered with status 401 and
  \<open>{error: 'Unauthorized'}\<close>; and every request without the right key, those two
  kinds included, leaves the world untouched: no \<open>slugify\<close> and no request to the
  store is logged. With no \<open>API_KEY\<close> no request is answered with status 401.
\<close>

theorem api_key_check:
  "(API_KEY cfg \<noteq> [] \<and> in_x_api_key inc \<noteq> Some (API_KEY cfg) \<longrightarrow>
      (in_method inc \<noteq> OPTIONS \<and> (\<forall>e. in_body inc \<noteq> Bad_json e) \<longrightarrow>
         res_status (fst (app rt cfg fetch now inc w)) = 401 \<and>
         (in_method inc \<noteq> HEAD \<longrightarrow>
            res_body (fst (app rt cfg fetch now inc w)) = error_body (js ''Unauthorized'')))
      \<and> snd (app rt cfg fetch now inc w) = w)
   \<and> (API_KEY cfg = [] \<longrightarrow> res_status (fst (app rt cfg fetch now inc w)) \<noteq> 401)"
proof (intro conjI impI)
  assume "API_KEY cfg \<noteq> [] \<and> in_x_api_key inc \<noteq> Some (API_KEY cfg)"
  then show "snd (app rt cfg fetch now inc w) = w"
    by (simp add: app_unauthorized_world)
next
  assume key: "API_KEY cfg \<noteq> [] \<and> in_x_api_key inc \<noteq> Some (API_KEY cfg)"
    and reaches: "in_method inc \<noteq> OPTIONS \<and> (\<forall>e. in_body inc \<noteq> Bad_json e)"
  then have rejected: "app rt cfg fetch now inc w =
      (sent (in_method inc) (respond 401 (error_body (js ''Unauthorized''))), w)"
    by (auto simp: app_def cors_def express_json_def guarded_routes_def api_key_middleware_def
        split: sent_body.splits)
  then show "res_status (fst (app rt cfg fetch now inc w)) = 401"
    by (simp add: respond_def)
  assume "in_method inc \<noteq> HEAD"
  with rejected show "res_body (fst (app rt cfg fetch now inc w)) = error_body (js ''Unauthorized'')"
    by (simp add: sent_def respond_def)
next
  assume "API_KEY cfg = []"
  then show "res_status (fst (app rt cfg fetch now inc w)) \<noteq> 401"
    by (rule app_open_status)
qed

theorem api_key_check_witness:
  "API_KEY keyed_config \<noteq> []
   \<and> res_status (fst (app test_runtime keyed_config kv_fetch (js ''2024-01-01T00:00:00.000Z'')
       \<lparr>in_method = POST, in_url = Save_url, in_x_api_key = Some (js ''guess''),
        in_body = Json_value ann_body\<rparr> (start empty_store))) = 401
   \<and> snd (app test_runtime keyed_config kv_fetch (js ''2024-01-01T00:00:00.000Z'')
       \<lparr>in_method = POST, in_url = Save_url, in_x_api_key = Some (js ''guess''),
        in_body = Json_value ann_body\<rparr> (start empty_store)) = start empty_store
   \<and> res_status (fst (app test_runtime open_config kv_fetch (js ''2024-01-01T00:00:00.000Z'')
       \<lparr>in_method = GET, in_url = Load_url (js ''ann-bee''), in_x_api_key = None,
        in_body = No_json\<rparr> (start empty_store))) \<noteq> 401"
proof -
  let ?guess = "\<lparr>in_method = POST, in_url = Save_url, in_x_api_key = Some (js ''guess''),
        in_body = Json_value ann_body\<rparr>"
  let ?open = "\<lparr>in_method = GET, in_url = Load_url (js ''ann-bee''), in_x_api_key = None,
        in_body = No_json\<rparr>"
  have keyed: "API_KEY keyed_config \<noteq> [] \<and> in_x_api_key ?guess \<noteq> Some (API_KEY keyed_config)"
    by (simp add: keyed_config_values js_def)
  have reaches: "in_method ?guess \<noteq> OPTIONS \<and> (\<forall>e. in_body ?guess \<noteq> Bad_json e)"
    by simp
  note checked = api_key_check [of keyed_config ?guess test_runtime kv_fetch
      "js ''2024-01-01T00:00:00.000Z''" "start empty_store"]
  from checked keyed reaches
  have 1: "res_status (fst (app test_runtime keyed_config kv_fetch (js ''2024-01-01T00:00:00.000Z'')
      ?guess (start empty_store))) = 401"
    and 2: "snd (app test_runtime keyed_config kv_fetch (js ''2024-01-01T00:00:00.000Z'')
      ?guess (start empty_store)) = start empty_store"
    by blast+
  from api_key_check [of open_config ?open test_runtime kv_fetch
      "js ''2024-01-01T00:00:00.000Z''" "start empty_store"]
  have 3: "res_status (fst (app test_runtime open_config kv_fetch (js ''2024-01-01T00:00:00.000Z'')
      ?open (start empty_store))) \<noteq> 401"
    by (simp add: open_config_values)
  from keyed 1 2 3 show ?thesis by blast
qed

text \<open>
  Claim C6 as stated fails: the middleware runs before every route, so a health
  request without the key is answered with 401 when a secret is configured.
\<close>

theorem health_unauthorized_counterexample:
  "config_ok keyed_config
   \<and> guarded_routes test_runtime keyed_config unreachable_store (js ''2024-01-01T00:00:00.000Z'')
       \<lparr>req_route = GET_health, req_x_api_key = None, req_body = None\<rparr> (start ())
     = (respond 401 (error_body (js ''Unauthorized'')), start ())
   \<and> app test_runtime keyed_config unreachable_store (js ''2024-01-01T00:00:00.000Z'')
       \<lparr>in_method = GET, in_url = Health_url, in_x_api_key = None, in_body = No_json\<rparr> (start ())
     = (respond 401 (error_body (js ''Unauthorized'')), start ())
   \<and> res_status (respond 401 (error_body (js ''Unauthorized''))) \<noteq> 200"
  by (simp add: app_def cors_def express_json_def route_of_def sent_def guarded_routes_def
      api_key_middleware_def keyed_config_values respond_def config_ok_def)

text \<open>
  Claim C6, amended. A request to the health endpoint that passes the shared-secret
  check (no secret is configured, or \<open>x-api-key\<close> equals it) is answered with status
  200 and body \<open>{ok: true}\<close>; and under every configuration a health request leaves
  the world untouched, so it sends nothing to the store. This holds of the routes
  behind the middleware and of the whole application on \<open>GET /health\<close>.
\<close>

theorem health_when_authorized:
  "(req_route req = GET_health \<longrightarrow>
      (API_KEY cfg = [] \<or> req_x_api_key req = Some (API_KEY cfg) \<longrightarrow>
         guarded_routes rt cfg fetch now req w =
           (respond 200 (JsonBody (JObj [(js ''ok'', JBool True)])), w))
      \<and> snd (guarded_routes rt cfg fetch now req w) = w)
   \<and> (in_method inc = GET \<and> in_url inc = Health_url \<longrightarrow>
      ((API_KEY cfg = [] \<or> in_x_api_key inc = Some (API_KEY cfg)) \<and>
       (\<forall>e. in_body inc \<noteq> Bad_json e) \<longrightarrow>
         app rt cfg fetch now inc w =
           (respond 200 (JsonBody (JObj [(js ''ok'', JBool True)])), w))
      \<and> snd (app rt cfg fetch now inc w) = w)"
proof (intro conjI impI)
  assume "req_route req = GET_health"
  then show "snd (guarded_routes rt cfg fetch now req w) = w"
    by (auto simp: guarded_routes_def api_key_middleware_def)
next
  assume "req_route req = GET_health"
    and "API_KEY cfg = [] \<or> req_x_api_key req = Some (API_KEY cfg)"
  then show "guarded_routes rt cfg fetch now req w =
      (respond 200 (JsonBody (JObj [(js ''ok'', JBool True)])), w)"
    by (auto simp: guarded_routes_def api_key_middleware_def health_def)
next
  assume "in_method inc = GET \<and> in_url inc = Health_url"
  then show "snd (app rt cfg fetch now inc w) = w"
    by (auto simp: app_def cors_def express_json_def route_of_def guarded_routes_def
        api_key_middleware_def split: sent_body.splits)
next
  assume "in_method inc = GET \<and> in_url inc = Health_url"
    and "(API_KEY cfg = [] \<or> in_x_api_key inc = Some (API_KEY cfg)) \<and>
       (\<forall>e. in_body inc \<noteq> Bad_json e)"
  then show "app rt cfg fetch now inc w =
      (respond 200 (JsonBody (JObj [(js ''ok'', JBool True)])), w)"
    by (auto simp: app_def cors_def express_json_def route_of_def sent_def guarded_routes_def
        api_key_middleware_def health_def split: sent_body.splits)
qed

theorem health_when_authorized_witness:
  "guarded_routes test_runtime keyed_config unreachable_store (js ''2024-01-01T00:00:00.000Z'')
       \<lparr>req_route = GET_health, req_x_api_key = Some (js ''some-shared-secret''), req_body = None\<rparr>
       (start ())
     = (respond 200 (JsonBody (JObj [(js ''ok'', JBool True)])), start ())
   \<and> app test_runtime keyed_config unreachable_store (js ''2024-01-01T00:00:00.000Z'')
       \<lparr>in_method = GET, in_url = Health_url, in_x_api_key = Some (js ''some-shared-secret''),
        in_body = No_json\<rparr> (start ())
     = (respond 200 (JsonBody (JObj [(js ''ok'', JBool True)])), start ())"
proof -
  let ?req = "\<lparr>req_route = GET_health, req_x_api_key = Some (js ''some-shared-secret''),
        req_body = None\<rparr>"
  let ?inc = "\<lparr>in_method = GET, in_url = Health_url,
        in_x_api_key = Some (js ''some-shared-secret''), in_body = No_json\<rparr>"
  have key: "req_x_api_key ?req = Some (API_KEY keyed_config)"
    "in_x_api_key ?inc = Some (API_KEY keyed_config)"
    by (simp_all add: keyed_config_values)
  have health: "req_route ?req = GET_health" "in_method ?inc = GET \<and> in_url ?inc = Health_url"
    "\<forall>e. in_body ?inc \<noteq> Bad_json e"
    by simp_all
  from health_when_authorized [of ?req keyed_config test_runtime unreachable_store
      "js ''2024-01-01T00:00:00.000Z''" "start ()" ?inc] key health
  show ?thesis by blast
qed

subsection \<open>A write whose answer has no commit identifier\<close>

lemma commit_sha_omitted:
  "result \<noteq> JNull \<Longrightarrow> \<not> truthy_opt (reported_commit_id result) \<Longrightarrow> commit_sha result = Inr JNull"
  by (auto simp: commit_sha_def reported_commit_id_def truthy_opt_def split: option.splits)

text \<open>
  On every answer to the write other than \<open>null\<close> the handler is lenient: without a
  commit identifier (no \<open>commit\<close>, a \<open>commit\<close> without \<open>sha\<close>, or a falsy \<open>sha\<close>) it
  answers with status 200, \<open>ok: true\<close>, the path and \<open>commit: null\<close>.
\<close>

lemma save_without_commit_id:
  assumes "req_body req = Some b"
    and "get_prop b (js ''profile'') = Some p" and "get_prop b (js ''checks'') = Some c"
    and "truthy p" and "truthy c"
    and "slugify rt (get_prop p (js ''discord'')) = Inr slug"
    and "to_string rt (discord_or_slug (get_prop p (js ''discord'')) slug) = Inr who"
    and "githubUpsertFile rt cfg fetch (storage_path cfg slug) (envelope p c now)
           (js ''Onboarding save for '' @ who)
           (log_event (Normalized (get_prop p (js ''discord''))) w) = (Inr result, w')"
    and "result \<noteq> JNull"
    and "\<not> truthy_opt (reported_commit_id result)"
  shows "save rt cfg fetch now req w =
           (respond 200 (JsonBody (JObj [(js ''ok'', JBool True),
                                         (js ''path'', JStr (storage_path cfg slug)),
                                         (js ''commit'', JNull)])), w')"
  using assms
  by (simp add: save_def save_try_def get_prop_body_or_empty commit_sha_omitted catch_500_def Let_def)

lemma ann_path_well_formed: "well_formed (js ''saves/ann-bee.json'')"
  by (rule js_well_formed)

lemma save_without_commit_id_example:
  "fst (save test_runtime open_config (fixed_reply_store (JObj [])) (js ''2024-01-01T00:00:00.000Z'')
          \<lparr>req_route = POST_save, req_x_api_key = None, req_body = Some ann_body\<rparr> (start ()))
       = respond 200 (JsonBody (JObj [(js ''ok'', JBool True),
                                      (js ''path'', JStr (js ''saves/ann-bee.json'')),
                                      (js ''commit'', JNull)]))"
proof -
  have who: "to_string test_runtime (discord_or_slug (Some (JStr (js ''Ann Bee''))) (js ''ann-bee''))
          = Inr (js ''Ann Bee'')"
    by (simp add: to_string_def discord_or_slug_def js_def)
  have omitted: "\<not> truthy_opt (reported_commit_id (JObj []))"
    by (simp add: reported_commit_id_def truthy_opt_def)
  have "save test_runtime open_config (fixed_reply_store (JObj [])) (js ''2024-01-01T00:00:00.000Z'')
          \<lparr>req_route = POST_save, req_x_api_key = None, req_body = Some ann_body\<rparr> (start ()) =
        (respond 200 (JsonBody (JObj [(js ''ok'', JBool True),
                                      (js ''path'', JStr (storage_path open_config (js ''ann-bee''))),
                                      (js ''commit'', JNull)])),
         snd (githubUpsertFile test_runtime open_config (fixed_reply_store (JObj []))
           (storage_path open_config (js ''ann-bee''))
           (envelope ann_profile ann_checks (js ''2024-01-01T00:00:00.000Z''))
           (js ''Onboarding save for '' @ js ''Ann Bee'')
           (log_event (Normalized (get_prop ann_profile (js ''discord''))) (start ()))))"
    by (rule save_without_commit_id [where b = ann_body and p = ann_profile and c = ann_checks
          and who = "js ''Ann Bee''" and result = "JObj []"])
       (simp_all add: ann_fields slugify_ann who upsert_fixed_reply omitted ann_path
          ann_path_well_formed)
  then show ?thesis
    by (simp add: ann_path)
qed

text \<open>
  Claim C9. The code at the input where it departs from the claim: the store answers
  the write with status 200 and the JSON body \<open>null\<close>. The write has succeeded and its
  answer carries no commit identifier, so by the claim \<open>save\<close> answers with status 200
  and \<open>commit: null\<close>; but \<open>result.commit\<close> throws on \<open>null\<close>, and the handler answers
  with status 500.
\<close>

theorem save_null_reply_fails:
  "fst (githubUpsertFile test_runtime open_config (fixed_reply_store JNull)
          (js ''saves/ann-bee.json'') (envelope ann_profile ann_checks (js ''2024-01-01T00:00:00.000Z''))
          (js ''Onboarding save for Ann Bee'')
          (log_event (Normalized (Some (JStr (js ''Ann Bee'')))) (start ()))) = Inr JNull
   \<and> reported_commit_id JNull = None
   \<and> fst (save test_runtime open_config (fixed_reply_store JNull) (js ''2024-01-01T00:00:00.000Z'')
          \<lparr>req_route = POST_save, req_x_api_key = None, req_body = Some ann_body\<rparr> (start ()))
       = respond 500 (error_body (js ''Cannot read properties of null (reading 'commit')''))"
proof -
  have "to_string test_runtime (discord_or_slug (Some (JStr (js ''Ann Bee''))) (js ''ann-bee''))
          = Inr (js ''Ann Bee'')"
    by (simp add: to_string_def discord_or_slug_def js_def)
  then have "fst (save test_runtime open_config (fixed_reply_store JNull) (js ''2024-01-01T00:00:00.000Z'')
          \<lparr>req_route = POST_save, req_x_api_key = None, req_body = Some ann_body\<rparr> (start ()))
       = respond 500 (error_body (js ''Cannot read properties of null (reading 'commit')''))"
    by (simp add: save_def save_try_def get_prop_body_or_empty ann_fields slugify_ann Let_def
        ann_path ann_path_well_formed
        upsert_fixed_reply commit_sha_def catch_500_def error_text_def TypeError_def)
  then show ?thesis
    by (simp add: upsert_fixed_reply ann_path_well_formed reported_commit_id_def)
qed

subsection \<open>The requests of an upsert\<close>

lemma get_prop_Some_truthy: "get_prop v k = Some x \<Longrightarrow> truthy v"
  by (cases v) auto

lemma existing_sha_part:
  "(if truthy (existing_sha existing) then [(js ''sha'', existing_sha existing)] else []) =
   (case get_prop existing (js ''sha'') of
      None \<Rightarrow> [] | Some v \<Rightarrow> if truthy v then [(js ''sha'', v)] else [])"
  by (auto simp: existing_sha_def truthy_opt_def split: option.splits dest: get_prop_Some_truthy)

text \<open>
  Claim C2 as stated fails. The store answers the read with status 200 and a
  directory listing: something exists at the path, but the answer has no \<open>sha\<close> of its
  own, and the write is sent without one. And on a path with a lone surrogate
  \<open>encodeURIComponent\<close> throws: nothing is fetched and nothing is written.
\<close>

theorem upsert_listing_counterexample:
  "resp_status (projr (fst (listing_store (get_request open_config (js ''saves/ann-bee.json'')) ())))
     = 200
   \<and> trace (snd (githubUpsertFile test_runtime open_config listing_store (js ''saves/ann-bee.json'')
        ann_body (js ''Onboarding save for Ann Bee'') (start ()))) =
     [Fetched (GET_contents (target open_config (js ''saves/ann-bee.json'')) (js ''main'')),
      Fetched (PUT_contents (target open_config (js ''saves/ann-bee.json''))
        (JObj [(js ''message'', JStr (js ''Onboarding save for Ann Bee'')),
               (js ''content'', JStr (test_stringify ann_body)),
               (js ''branch'', JStr (js ''main''))]))]
   \<and> githubUpsertFile test_runtime open_config listing_store [0xD800]
        ann_body (js ''Onboarding save for Ann Bee'') (start ())
     = (Inl (URIError (js ''URI malformed'')), start ())"
  by (simp add: githubUpsertFile_def githubGetContent_def ann_path_well_formed
      open_config_values js_well_formed do_fetch_def get_request_def put_request_def
      put_body_def existing_sha_def truthy_opt_def resp_ok_def start_def test_runtime_def
      is_high_surrogate_def)

text \<open>
  Claim C2, amended. For every content and message and every path without a lone
  surrogate, the upsert first fetches the object at the path. When that read is
  answered with 404 or with a 2xx status and a JSON body, the upsert then calls the
  store's write primitive, on the state the read has left, with the target path, the
  branch, the commit message (the one given, or \<open>Update\<close> and the path when it is
  empty) and the base64-encoded pretty-printed JSON content, including the \<open>sha\<close> of
  the object that was read if and only if that object carries a truthy \<open>sha\<close>. When
  the read fails in any other way nothing is written, and on a path with a lone
  surrogate nothing is sent at all.
\<close>

theorem upsert_reads_then_writes:
  assumes "fetch (get_request cfg path) (backend w) = (answer, b1)"
  shows
    "(\<not> well_formed path \<longrightarrow>
        githubUpsertFile rt cfg fetch path contentJson message w =
          (Inl (URIError (js ''URI malformed'')), w))
     \<and> (well_formed path \<and> answer = Inr r \<and>
          (resp_status r = 404 \<and> existing = JNull \<or>
           resp_status r \<noteq> 404 \<and> resp_ok r \<and> resp_json r = Inr existing) \<longrightarrow>
          (let write = PUT_contents (target cfg path)
                 (JObj ([(js ''message'',
                            JStr (if message \<noteq> [] then message else js ''Update '' @ path)),
                         (js ''content'',
                            JStr (utf8_to_base64 rt (JSON_stringify_indent2 rt contentJson))),
                         (js ''branch'', JStr (GITHUB_BRANCH cfg))]
                        @ (case get_prop existing (js ''sha'') of
                             None \<Rightarrow> []
                           | Some v \<Rightarrow> if truthy v then [(js ''sha'', v)] else [])))
           in snd (githubUpsertFile rt cfg fetch path contentJson message w) =
                \<lparr>backend = snd (fetch write b1),
                 trace = trace w @
                   [Fetched (GET_contents (target cfg path) (GITHUB_BRANCH cfg)),
                    Fetched write]\<rparr>))
     \<and> (well_formed path \<and>
          ((\<exists>e. answer = Inl e) \<or>
           (\<exists>r'. answer = Inr r' \<and> resp_status r' \<noteq> 404 \<and>
                 (\<not> resp_ok r' \<or> (\<exists>e. resp_json r' = Inl e)))) \<longrightarrow>
          snd (githubUpsertFile rt cfg fetch path contentJson message w) =
            \<lparr>backend = b1,
             trace = trace w @ [Fetched (GET_contents (target cfg path) (GITHUB_BRANCH cfg))]\<rparr>
          \<and> (\<exists>e. fst (githubUpsertFile rt cfg fetch path contentJson message w) = Inl e))"
proof (intro conjI impI)
  assume "\<not> well_formed path"
  then show "githubUpsertFile rt cfg fetch path contentJson message w =
          (Inl (URIError (js ''URI malformed'')), w)"
    by (simp add: githubUpsertFile_def githubGetContent_def)
next
  assume found: "well_formed path \<and> answer = Inr r \<and>
          (resp_status r = 404 \<and> existing = JNull \<or>
           resp_status r \<noteq> 404 \<and> resp_ok r \<and> resp_json r = Inr existing)"
  with assms have read: "githubGetContent cfg fetch path w =
      (Inr existing, \<lparr>backend = b1, trace = trace w @ [Fetched (get_request cfg path)]\<rparr>)"
    by (auto simp: get_content_well_formed do_fetch_def)
  show "let write = PUT_contents (target cfg path)
                 (JObj ([(js ''message'',
                            JStr (if message \<noteq> [] then message else js ''Update '' @ path)),
                         (js ''content'',
                            JStr (utf8_to_base64 rt (JSON_stringify_indent2 rt contentJson))),
                         (js ''branch'', JStr (GITHUB_BRANCH cfg))]
                        @ (case get_prop existing (js ''sha'') of
                             None \<Rightarrow> []
                           | Some v \<Rightarrow> if truthy v then [(js ''sha'', v)] else [])))
           in snd (githubUpsertFile rt cfg fetch path contentJson message w) =
                \<lparr>backend = snd (fetch write b1),
                 trace = trace w @
                   [Fetched (GET_contents (target cfg path) (GITHUB_BRANCH cfg)),
                    Fetched write]\<rparr>"
    unfolding Let_def
    by (simp add: githubUpsertFile_def read do_fetch_def put_request_def put_body_def
        existing_sha_part get_request_def split: prod.splits sum.splits)
next
  assume failed: "well_formed path \<and>
          ((\<exists>e. answer = Inl e) \<or>
           (\<exists>r'. answer = Inr r' \<and> resp_status r' \<noteq> 404 \<and>
                 (\<not> resp_ok r' \<or> (\<exists>e. resp_json r' = Inl e))))"
  with assms have "\<exists>e. githubGetContent cfg fetch path w =
      (Inl e, \<lparr>backend = b1, trace = trace w @ [Fetched (get_request cfg path)]\<rparr>)"
    by (auto simp: get_content_well_formed do_fetch_def)
  then obtain e where read: "githubGetContent cfg fetch path w =
      (Inl e, \<lparr>backend = b1, trace = trace w @ [Fetched (get_request cfg path)]\<rparr>)" ..
  then show "snd (githubUpsertFile rt cfg fetch path contentJson message w) =
            \<lparr>backend = b1,
             trace = trace w @ [Fetched (GET_contents (target cfg path) (GITHUB_BRANCH cfg))]\<rparr>"
    by (simp add: githubUpsertFile_def get_request_def)
  from read show "\<exists>e. fst (githubUpsertFile rt cfg fetch path contentJson message w) = Inl e"
    by (simp add: githubUpsertFile_def)
qed

theorem upsert_reads_then_writes_witness:
  "githubUpsertFile test_runtime open_config kv_fetch [0xD800]
       ann_body (js ''Onboarding save for Ann Bee'') (start empty_store)
     = (Inl (URIError (js ''URI malformed'')), start empty_store)
   \<and> snd (githubUpsertFile test_runtime open_config kv_fetch (js ''saves/ann-bee.json'')
       ann_body (js ''Onboarding save for Ann Bee'') (start empty_store)) =
     \<lparr>backend = empty_store((js ''main'', js ''saves/ann-bee.json'') \<mapsto> test_stringify ann_body),
      trace =
       [Fetched (GET_contents (target open_config (js ''saves/ann-bee.json'')) (js ''main'')),
        Fetched (PUT_contents (target open_config (js ''saves/ann-bee.json''))
          (JObj [(js ''message'', JStr (js ''Onboarding save for Ann Bee'')),
                 (js ''content'', JStr (test_stringify ann_body)),
                 (js ''branch'', JStr (js ''main''))]))]\<rparr>
   \<and> snd (githubUpsertFile test_runtime open_config kv_fetch (js ''saves/ann-bee.json'')
       ann_body (js ''Onboarding save for Ann Bee'')
       (start (empty_store((js ''main'', js ''saves/ann-bee.json'') \<mapsto> js ''b2xk'')))) =
     \<lparr>backend = empty_store((js ''main'', js ''saves/ann-bee.json'') \<mapsto> test_stringify ann_body),
      trace =
       [Fetched (GET_contents (target open_config (js ''saves/ann-bee.json'')) (js ''main'')),
        Fetched (PUT_contents (target open_config (js ''saves/ann-bee.json''))
          (JObj [(js ''message'', JStr (js ''Onboarding save for Ann Bee'')),
                 (js ''content'', JStr (test_stringify ann_body)),
                 (js ''branch'', JStr (js ''main'')),
                 (js ''sha'', JStr (blob_sha (js ''b2xk'')))]))]\<rparr>
   \<and> snd (githubUpsertFile test_runtime open_config unreachable_store (js ''saves/ann-bee.json'')
       ann_body (js ''Onboarding save for Ann Bee'') (start ())) =
     \<lparr>backend = (),
      trace =
       [Fetched (GET_contents (target open_config (js ''saves/ann-bee.json'')) (js ''main''))]\<rparr>"
proof -
  let ?path = "js ''saves/ann-bee.json''"
  let ?stored = "empty_store((js ''main'', ?path) \<mapsto> js ''b2xk'')"
  have ill: "\<not> well_formed [0xD800]"
    by (simp add: is_high_surrogate_def)
  have any: "kv_fetch (get_request open_config [0xD800]) (backend (start empty_store))
               = (Inr (kv_refusal 404 (js ''Not Found'')), empty_store)"
    by (simp add: get_request_def start_def empty_store_def)
  have absent: "kv_fetch (get_request open_config ?path) (backend (start empty_store))
                = (Inr (kv_refusal 404 (js ''Not Found'')), empty_store)"
    by (simp add: get_request_def start_def empty_store_def)
  have present: "kv_fetch (get_request open_config ?path) (backend (start ?stored))
                = (Inr (kv_answer 200 (kv_file ?path (js ''b2xk''))), ?stored)"
    by (simp add: get_request_def start_def target_def open_config_values)
  have down: "unreachable_store (get_request open_config ?path) (backend (start ()))
                = (Inl (Error (js ''fetch failed'')), ())"
    by (simp add: unreachable_store_def)
  have keys: "js ''branch'' \<noteq> js ''message''" "js ''branch'' \<noteq> js ''content''"
    "js ''content'' \<noteq> js ''message''" "js ''sha'' \<noteq> js ''message''"
    "js ''sha'' \<noteq> js ''content''" "js ''sha'' \<noteq> js ''branch''"
    by (simp_all add: js_def)
  from ill upsert_reads_then_writes [where fetch = kv_fetch and cfg = open_config and path = "[0xD800]"
      and w = "start empty_store" and answer = "Inr (kv_refusal 404 (js ''Not Found''))"
      and ?b1.0 = empty_store and rt = test_runtime and contentJson = ann_body
      and message = "js ''Onboarding save for Ann Bee''" and r = undefined
      and existing = undefined, OF any]
  have 0: "githubUpsertFile test_runtime open_config kv_fetch [0xD800]
       ann_body (js ''Onboarding save for Ann Bee'') (start empty_store)
     = (Inl (URIError (js ''URI malformed'')), start empty_store)"
    by (simp only: simp_thms)
  from upsert_reads_then_writes [where fetch = kv_fetch and cfg = open_config and path = ?path
      and w = "start empty_store" and answer = "Inr (kv_refusal 404 (js ''Not Found''))"
      and ?b1.0 = empty_store and rt = test_runtime and contentJson = ann_body
      and message = "js ''Onboarding save for Ann Bee''"
      and r = "kv_refusal 404 (js ''Not Found'')" and existing = JNull, OF absent]
  have 1: "snd (githubUpsertFile test_runtime open_config kv_fetch ?path
       ann_body (js ''Onboarding save for Ann Bee'') (start empty_store)) =
     \<lparr>backend = empty_store((js ''main'', ?path) \<mapsto> test_stringify ann_body),
      trace =
       [Fetched (GET_contents (target open_config ?path) (js ''main'')),
        Fetched (PUT_contents (target open_config ?path)
          (JObj [(js ''message'', JStr (js ''Onboarding save for Ann Bee'')),
                 (js ''content'', JStr (test_stringify ann_body)),
                 (js ''branch'', JStr (js ''main''))]))]\<rparr>"
    by (simp add: ann_path_well_formed kv_refusal_def start_def test_runtime_def
        open_config_values keys target_def empty_store_def Let_def)
  from upsert_reads_then_writes [where fetch = kv_fetch and cfg = open_config and path = ?path
      and w = "start ?stored"
      and answer = "Inr (kv_answer 200 (kv_file ?path (js ''b2xk'')))"
      and ?b1.0 = ?stored and rt = test_runtime and contentJson = ann_body
      and message = "js ''Onboarding save for Ann Bee''"
      and r = "kv_answer 200 (kv_file ?path (js ''b2xk''))"
      and existing = "kv_file ?path (js ''b2xk'')", OF present]
  have 2: "snd (githubUpsertFile test_runtime open_config kv_fetch ?path
       ann_body (js ''Onboarding save for Ann Bee'') (start ?stored)) =
     \<lparr>backend = empty_store((js ''main'', ?path) \<mapsto> test_stringify ann_body),
      trace =
       [Fetched (GET_contents (target open_config ?path) (js ''main'')),
        Fetched (PUT_contents (target open_config ?path)
          (JObj [(js ''message'', JStr (js ''Onboarding save for Ann Bee'')),
                 (js ''content'', JStr (test_stringify ann_body)),
                 (js ''branch'', JStr (js ''main'')),
                 (js ''sha'', JStr (blob_sha (js ''b2xk'')))]))]\<rparr>"
    by (simp add: ann_path_well_formed kv_answer_def resp_ok_def kv_file_props blob_sha_nonempty
        start_def test_runtime_def open_config_values keys target_def Let_def)
  from upsert_reads_then_writes [where fetch = unreachable_store and cfg = open_config
      and path = ?path and w = "start ()" and answer = "Inl (Error (js ''fetch failed''))"
      and ?b1.0 = "()" and rt = test_runtime and contentJson = ann_body
      and message = "js ''Onboarding save for Ann Bee''" and r = undefined
      and existing = undefined, OF down]
  have 3: "snd (githubUpsertFile test_runtime open_config unreachable_store ?path
       ann_body (js ''Onboarding save for Ann Bee'') (start ())) =
     \<lparr>backend = (),
      trace = [Fetched (GET_contents (target open_config ?path) (js ''main''))]\<rparr>"
    by (simp add: ann_path_well_formed start_def open_config_values)
  from 0 1 2 3 show ?thesis by (simp only: simp_thms)
qed

subsection \<open>Round trip through a key-value store\<close>

lemma to_string_JStr [simp]: "to_string rt (JStr s) = Inr s"
  by (simp add: to_string_def)

lemma message_name_defined:
  assumes "slugify rt d = Inr slug"
  shows "\<exists>who. to_string rt (discord_or_slug d slug) = Inr who"
proof (cases "truthy_opt d")
  case True
  then obtain v where v: "d = Some v" "truthy v" by (auto simp: truthy_opt_def split: option.splits)
  with assms show ?thesis
    by (auto simp: slugify_def or_empty_def discord_or_slug_def split: sum.splits)
next
  case False
  then show ?thesis
    by (auto simp: discord_or_slug_def truthy_opt_def split: option.splits)
qed

lemma put_body_props:
  "get_prop (put_body rt cfg path contentJson message sha) (js ''branch'') = Some (JStr (GITHUB_BRANCH cfg))"
  "get_prop (put_body rt cfg path contentJson message sha) (js ''content'') =
     Some (JStr (utf8_to_base64 rt (JSON_stringify_indent2 rt contentJson)))"
  "get_prop (put_body rt cfg path contentJson message sha) (js ''sha'') =
     (if truthy sha then Some sha else None)"
  by (simp_all add: put_body_def js_def)

lemma kv_written_commit:
  "commit_sha (kv_written path content) = Inr (JStr (js ''commit-'' @ blob_sha content))"
  by (simp add: commit_sha_def kv_written_def js_def)

lemma kv_get_missing:
  "well_formed path \<Longrightarrow> backend w (GITHUB_BRANCH cfg, path) = None \<Longrightarrow>
   githubGetContent cfg kv_fetch path w =
     (Inr JNull, \<lparr>backend = backend w, trace = trace w @ [Fetched (get_request cfg path)]\<rparr>)"
  by (simp add: get_content_well_formed do_fetch_def get_request_def target_def kv_refusal_def)

lemma kv_get_stored:
  "well_formed path \<Longrightarrow> backend w (GITHUB_BRANCH cfg, path) = Some content \<Longrightarrow>
   githubGetContent cfg kv_fetch path w =
     (Inr (kv_file path content),
      \<lparr>backend = backend w, trace = trace w @ [Fetched (get_request cfg path)]\<rparr>)"
  by (simp add: get_content_well_formed do_fetch_def get_request_def target_def kv_answer_def resp_ok_def)

lemma kv_upsert:
  assumes "well_formed path"
  shows "githubUpsertFile rt cfg kv_fetch path contentJson message w =
     (Inr (kv_written path (utf8_to_base64 rt (JSON_stringify_indent2 rt contentJson))),
      \<lparr>backend = (backend w)((GITHUB_BRANCH cfg, path) \<mapsto>
                    utf8_to_base64 rt (JSON_stringify_indent2 rt contentJson)),
       trace = trace w @
         [Fetched (get_request cfg path),
          Fetched (put_request cfg path
            (put_body rt cfg path contentJson message
               (case backend w (GITHUB_BRANCH cfg, path) of
                  None \<Rightarrow> JNull | Some old \<Rightarrow> JStr (blob_sha old))))]\<rparr>)"
proof (cases "backend w (GITHUB_BRANCH cfg, path)")
  case None
  with assms show ?thesis
    by (simp add: githubUpsertFile_def kv_get_missing existing_sha_def do_fetch_def
        put_request_def put_body_props target_def kv_answer_def resp_ok_def)
next
  case (Some old)
  with assms show ?thesis
    by (simp add: githubUpsertFile_def kv_get_stored existing_sha_def kv_file_props truthy_opt_def
        blob_sha_nonempty do_fetch_def put_request_def put_body_props target_def kv_answer_def resp_ok_def)
qed

lemma jsonify_finite: "json_finite v \<Longrightarrow> jsonify v = v"
proof (induction v)
  case (JArr xs)
  then show ?case by (simp add: list_all_iff map_idI)
next
  case (JObj kvs)
  have "map (\<lambda>kv. (fst kv, jsonify (snd kv))) kvs = map (\<lambda>kv. kv) kvs"
  proof (rule map_cong [OF refl])
    fix kv assume kv: "kv \<in> set kvs"
    with JObj.prems have "json_finite (snd kv)" by (simp add: list_all_iff)
    moreover from kv have "snd kv \<in> Basic_BNFs.snds kv" "kv \<in> set kvs"
      by (auto simp: snds.simps)
    ultimately have "jsonify (snd kv) = snd kv" using JObj.IH by blast
    then show "(fst kv, jsonify (snd kv)) = kv" by simp
  qed
  then show ?case by simp
qed simp_all

lemma envelope_fields:
  "get_prop (jsonify (envelope p c now)) (js ''profile'') = Some (jsonify p)"
  "get_prop (jsonify (envelope p c now)) (js ''checks'') = Some (jsonify c)"
  by (simp_all add: envelope_def js_def)

lemma round_trip_general:
  fixes w :: "kv_store world"
  assumes "req_body req = Some b"
    and "get_prop b (js ''profile'') = Some p" and "get_prop b (js ''checks'') = Some c"
    and "truthy p" and "truthy c"
    and "slugify rt (get_prop p (js ''discord'')) = Inr slug"
    and "slugify rt (Some (JStr slug_param)) = Inr slug"
    and "base64_to_utf8 rt (Some (JStr (utf8_to_base64 rt (JSON_stringify_indent2 rt (envelope p c now)))))
           = Inr (JSON_stringify_indent2 rt (envelope p c now))"
  shows "\<exists>res w'. save rt cfg kv_fetch now req w = (res, w') \<and> res_status res = 200 \<and>
           fst (load rt cfg kv_fetch slug_param w') =
             respond 200 (RawJson (JSON_stringify_indent2 rt (envelope p c now)))"
proof -
  from message_name_defined [OF assms(6)] obtain who
    where who: "to_string rt (discord_or_slug (get_prop p (js ''discord'')) slug) = Inr who" ..
  define doc where "doc = JSON_stringify_indent2 rt (envelope p c now)"
  define path where "path = storage_path cfg slug"
  define w' :: "kv_store world" where "w' = snd (save rt cfg kv_fetch now req w)"
  from assms(6) have "slug_head slug" by (rule slugify_result)
  then have wf: "well_formed (storage_path cfg slug)"
    by (intro storage_path_well_formed slug_well_formed)
  have saved: "save rt cfg kv_fetch now req w =
      (respond 200 (JsonBody (JObj [(js ''ok'', JBool True), (js ''path'', JStr path),
           (js ''commit'', JStr (js ''commit-'' @ blob_sha (utf8_to_base64 rt doc)))])), w')"
    and stored: "backend w' (GITHUB_BRANCH cfg, path) = Some (utf8_to_base64 rt doc)"
    unfolding w'_def using assms(1-6) who wf
    by (simp_all add: save_def save_try_def get_prop_body_or_empty Let_def kv_upsert
        kv_written_commit catch_500_def doc_def path_def)
  have "backend (log_event (Normalized (Some (JStr slug_param))) w') (GITHUB_BRANCH cfg, path)
          = Some (utf8_to_base64 rt doc)"
    using stored by (simp add: log_event_def)
  then have "fst (load rt cfg kv_fetch slug_param w') = respond 200 (RawJson doc)"
    using assms(7,8) wf
    by (simp add: load_def load_try_def Let_def kv_get_stored kv_file_props catch_500_def
        doc_def [symmetric] path_def [symmetric])
  then show ?thesis using saved by (simp add: respond_def doc_def)
qed

text \<open>
  Claim C1 as stated fails. A request whose \<open>checks\<close> is present with the value
  \<open>false\<close> does not pass the presence check: \<open>save\<close> answers 400 and stores nothing,
  and the following \<open>load\<close> with the same identifying field answers 404. And a request
  whose \<open>checks\<close> is the number that \<open>1e999\<close> parses to, \<open>Infinity\<close>, is saved, but the
  text that \<open>load\<close> returns has \<open>null\<close> for it.
\<close>

theorem round_trip_falsy_checks_counterexample:
  "get_prop (JObj [(js ''profile'', ann_profile), (js ''checks'', JBool False)]) (js ''profile'')
     = Some ann_profile
   \<and> get_prop (JObj [(js ''profile'', ann_profile), (js ''checks'', JBool False)]) (js ''checks'')
     = Some (JBool False)
   \<and> fst (save test_runtime open_config kv_fetch (js ''2024-01-01T00:00:00.000Z'')
        \<lparr>req_route = POST_save, req_x_api_key = None,
         req_body = Some (JObj [(js ''profile'', ann_profile), (js ''checks'', JBool False)])\<rparr>
        (start empty_store))
     = respond 400 (error_body (js ''Missing profile or checks''))
   \<and> fst (load test_runtime open_config kv_fetch (js ''Ann Bee'')
        (snd (save test_runtime open_config kv_fetch (js ''2024-01-01T00:00:00.000Z'')
           \<lparr>req_route = POST_save, req_x_api_key = None,
            req_body = Some (JObj [(js ''profile'', ann_profile), (js ''checks'', JBool False)])\<rparr>
           (start empty_store))))
     = respond 404 (error_body (js ''Not found''))
   \<and> res_status (fst (save test_runtime open_config kv_fetch (js ''2024-01-01T00:00:00.000Z'')
        \<lparr>req_route = POST_save, req_x_api_key = None,
         req_body = Some (JObj [(js ''profile'', ann_profile), (js ''checks'', JInfinity)])\<rparr>
        (start empty_store))) = 200
   \<and> fst (load test_runtime open_config kv_fetch (js ''Ann Bee'')
        (snd (save test_runtime open_config kv_fetch (js ''2024-01-01T00:00:00.000Z'')
           \<lparr>req_route = POST_save, req_x_api_key = None,
            req_body = Some (JObj [(js ''profile'', ann_profile), (js ''checks'', JInfinity)])\<rparr>
           (start empty_store))))
     = respond 200 (RawJson (test_stringify
         (envelope ann_profile JNull (js ''2024-01-01T00:00:00.000Z''))))"
proof -
  let ?req = "\<lparr>req_route = POST_save, req_x_api_key = None,
         req_body = Some (JObj [(js ''profile'', ann_profile), (js ''checks'', JBool False)])\<rparr>"
  let ?inf = "\<lparr>req_route = POST_save, req_x_api_key = None,
         req_body = Some (JObj [(js ''profile'', ann_profile), (js ''checks'', JInfinity)])\<rparr>"
  have fields: "get_prop (JObj [(js ''profile'', ann_profile), (js ''checks'', JBool False)]) (js ''profile'')
     = Some ann_profile"
    "get_prop (JObj [(js ''profile'', ann_profile), (js ''checks'', JBool False)]) (js ''checks'')
     = Some (JBool False)"
    by (simp_all add: js_def)
  have rejected: "save test_runtime open_config kv_fetch (js ''2024-01-01T00:00:00.000Z'') ?req
      (start empty_store) = (respond 400 (error_body (js ''Missing profile or checks'')), start empty_store)"
    by (rule save_rejects) (simp add: get_prop_body_or_empty truthy_opt_def js_def)
  have wf: "well_formed (storage_path open_config (slugify_string test_runtime (js ''Ann Bee'')))"
    by (intro storage_path_well_formed slug_well_formed slugify_string_pattern)
  have "load test_runtime open_config kv_fetch (js ''Ann Bee'') (start empty_store)
      = (respond 404 (error_body (js ''Not found'')),
         \<lparr>backend = empty_store,
          trace = trace (start empty_store) @ [Normalized (Some (JStr (js ''Ann Bee''))),
             Fetched (get_request open_config
               (storage_path open_config (slugify_string test_runtime (js ''Ann Bee''))))]\<rparr>)"
    by (simp add: load_def load_try_def slugify_JStr get_content_well_formed wf do_fetch_def
      log_event_def catch_500_def Let_def get_request_def start_def empty_store_def kv_refusal_def)
  with rejected have falsy: "fst (load test_runtime open_config kv_fetch (js ''Ann Bee'')
        (snd (save test_runtime open_config kv_fetch (js ''2024-01-01T00:00:00.000Z'') ?req
           (start empty_store)))) = respond 404 (error_body (js ''Not found''))"
    by simp
  have inf_fields:
    "get_prop (JObj [(js ''profile'', ann_profile), (js ''checks'', JInfinity)]) (js ''profile'')
       = Some ann_profile"
    "get_prop (JObj [(js ''profile'', ann_profile), (js ''checks'', JInfinity)]) (js ''checks'')
       = Some JInfinity"
    by (simp_all add: js_def)
  have inf_body: "req_body ?inf
      = Some (JObj [(js ''profile'', ann_profile), (js ''checks'', JInfinity)])"
    by simp
  have inf_truthy: "truthy JInfinity"
    by simp
  have inf_key: "slugify test_runtime (get_prop ann_profile (js ''discord'')) = Inr (js ''ann-bee'')"
    by (simp add: ann_fields slugify_ann)
  have text_eq: "test_stringify (envelope ann_profile JInfinity (js ''2024-01-01T00:00:00.000Z''))
      = test_stringify (envelope ann_profile JNull (js ''2024-01-01T00:00:00.000Z''))"
    by (simp add: envelope_def)
  have codec: "base64_to_utf8 test_runtime (Some (JStr (utf8_to_base64 test_runtime
         (JSON_stringify_indent2 test_runtime
            (envelope ann_profile JInfinity (js ''2024-01-01T00:00:00.000Z''))))))
       = Inr (JSON_stringify_indent2 test_runtime
            (envelope ann_profile JInfinity (js ''2024-01-01T00:00:00.000Z'')))"
    by (simp add: test_runtime_def)
  have "\<exists>res w'. save test_runtime open_config kv_fetch (js ''2024-01-01T00:00:00.000Z'') ?inf
            (start empty_store) = (res, w') \<and> res_status res = 200 \<and>
           fst (load test_runtime open_config kv_fetch (js ''Ann Bee'') w') =
             respond 200 (RawJson (JSON_stringify_indent2 test_runtime
                (envelope ann_profile JInfinity (js ''2024-01-01T00:00:00.000Z''))))"
    by (rule round_trip_general [OF inf_body inf_fields ann_fields(4) inf_truthy inf_key
          slugify_ann codec])
  then have inf: "res_status (fst (save test_runtime open_config kv_fetch
        (js ''2024-01-01T00:00:00.000Z'') ?inf (start empty_store))) = 200"
    "fst (load test_runtime open_config kv_fetch (js ''Ann Bee'')
        (snd (save test_runtime open_config kv_fetch (js ''2024-01-01T00:00:00.000Z'') ?inf
           (start empty_store))))
     = respond 200 (RawJson (test_stringify
         (envelope ann_profile JNull (js ''2024-01-01T00:00:00.000Z''))))"
    using text_eq by (auto simp: test_runtime_def)
  from fields rejected falsy inf show ?thesis by simp
qed

text \<open>
  Claim C1, amended. Against the key-value store, in any state: when a save request
  carries a \<open>profile\<close> and a \<open>checks\<close> that are both present and truthy and hold no
  non-finite number, \<open>slugify\<close> returns on the profile's \<open>discord\<close>, the slug given to
  \<open>load\<close> normalises to the same key, the runtime's base64 decoding undoes its
  encoding on the stored text, and \<open>JSON.parse\<close> reads the text that
  \<open>JSON.stringify\<close> writes for the envelope as the value that JSON keeps of it, then
  \<open>save\<close> answers with status 200 and the following \<open>load\<close> answers with status 200
  and a text that parses to an object whose \<open>profile\<close> and \<open>checks\<close> are the ones
  saved.
\<close>

theorem save_then_load_round_trip:
  fixes w :: "kv_store world"
  assumes "req_body req = Some b"
    and "get_prop b (js ''profile'') = Some p" and "get_prop b (js ''checks'') = Some c"
    and "truthy p" and "truthy c"
    and "json_finite p" and "json_finite c"
    and "slugify rt (get_prop p (js ''discord'')) = Inr slug"
    and "slugify rt (Some (JStr slug_param)) = Inr slug"
    and "base64_to_utf8 rt (Some (JStr (utf8_to_base64 rt (JSON_stringify_indent2 rt (envelope p c now)))))
           = Inr (JSON_stringify_indent2 rt (envelope p c now))"
    and "JSON_parse rt (JSON_stringify_indent2 rt (envelope p c now)) = Inr (jsonify (envelope p c now))"
  shows "\<exists>res w' body e. save rt cfg kv_fetch now req w = (res, w') \<and> res_status res = 200 \<and>
           fst (load rt cfg kv_fetch slug_param w') = respond 200 (RawJson body) \<and>
           JSON_parse rt body = Inr e \<and>
           get_prop e (js ''profile'') = Some p \<and>
           get_prop e (js ''checks'') = Some c"
proof -
  from round_trip_general [OF assms(1-5,8-10)] obtain res and w' :: "kv_store world"
    where "save rt cfg kv_fetch now req w = (res, w')" "res_status res = 200"
      "fst (load rt cfg kv_fetch slug_param w') =
         respond 200 (RawJson (JSON_stringify_indent2 rt (envelope p c now)))"
    by blast
  moreover have "get_prop (jsonify (envelope p c now)) (js ''profile'') = Some p"
    "get_prop (jsonify (envelope p c now)) (js ''checks'') = Some c"
    using assms(6,7) by (simp_all add: envelope_fields jsonify_finite)
  ultimately show ?thesis using assms(11) by blast
qed

theorem save_then_load_round_trip_witness:
  "res_status (fst (save test_runtime open_config kv_fetch (js ''2024-01-01T00:00:00.000Z'')
       \<lparr>req_route = POST_save, req_x_api_key = None, req_body = Some ann_body\<rparr>
       (start empty_store))) = 200
   \<and> (\<exists>body e. fst (load test_runtime open_config kv_fetch (js ''ann-bee'')
        (snd (save test_runtime open_config kv_fetch (js ''2024-01-01T00:00:00.000Z'')
           \<lparr>req_route = POST_save, req_x_api_key = None, req_body = Some ann_body\<rparr>
           (start empty_store))))
        = respond 200 (RawJson body)
      \<and> test_parse body = Inr e
      \<and> get_prop e (js ''profile'') = Some ann_profile
      \<and> get_prop e (js ''checks'') = Some ann_checks)"
proof -
  have body: "req_body \<lparr>req_route = POST_save, req_x_api_key = None, req_body = Some ann_body\<rparr>
                = Some ann_body"
    by simp
  have finite: "json_finite ann_profile" "json_finite ann_checks"
    by (simp_all add: ann_profile_def ann_checks_def)
  have key: "slugify test_runtime (get_prop ann_profile (js ''discord'')) = Inr (js ''ann-bee'')"
    by (simp add: ann_fields slugify_ann)
  have same: "slugify test_runtime (Some (JStr (js ''ann-bee''))) = Inr (js ''ann-bee'')"
    by (simp add: slugify_JStr slugify_string_def toLowerCase_def trim_def js_def
        is_white_space_def is_alnum_def ascii_lower_def hyphen_def test_runtime_def)
  have codec: "base64_to_utf8 test_runtime (Some (JStr (utf8_to_base64 test_runtime
         (JSON_stringify_indent2 test_runtime
            (envelope ann_profile ann_checks (js ''2024-01-01T00:00:00.000Z''))))))
       = Inr (JSON_stringify_indent2 test_runtime
            (envelope ann_profile ann_checks (js ''2024-01-01T00:00:00.000Z'')))"
    by (simp add: test_runtime_def)
  have "test_parse (test_stringify (envelope ann_profile ann_checks (js ''2024-01-01T00:00:00.000Z'')))
          = Inr (jsonify (envelope ann_profile ann_checks (js ''2024-01-01T00:00:00.000Z'')))"
    by code_simp
  then have parse: "JSON_parse test_runtime (JSON_stringify_indent2 test_runtime
            (envelope ann_profile ann_checks (js ''2024-01-01T00:00:00.000Z'')))
       = Inr (jsonify (envelope ann_profile ann_checks (js ''2024-01-01T00:00:00.000Z'')))"
    by (simp add: test_runtime_def)
  from save_then_load_round_trip [OF body ann_fields(1,2,4,5) finite key same codec parse,
      where cfg = open_config and w = "start empty_store"]
  show ?thesis by (auto simp: test_runtime_def)
qed

end
